theory Spec2Isabelle
  imports Main
begin

section \<open>The table storage core of data\_table.cpp\<close>

text \<open>
  A shallow embedding of \<^verbatim>\<open>src/storage/data_table.cpp\<close>: the constraint
  verifier, the index coordination, the append, delete, update and scan paths of
  \<^verbatim>\<open>DataTable\<close>.

  Conventions of the embedding.
  \<^item> \<^verbatim>\<open>index_t\<close> (unsigned 64 bit) is \<open>nat\<close> and \<^verbatim>\<open>row_t\<close> (signed 64 bit) is \<open>int\<close>.
    The unsigned subtractions \<^verbatim>\<open>BLOCK_SIZE - start_position\<close> and
    \<^verbatim>\<open>STORAGE_CHUNK_SIZE - last_chunk->count\<close> are written with their wrap-around
    (\<open>usub\<close>); \<^verbatim>\<open>ids[i] - chunk->start\<close> is compared as the source compares it after
    the wrap-around.  Sums stay far below \<open>2 ^ 64\<close> and are not reduced.
  \<^item> A function that throws returns the exception as a value; a \<^verbatim>\<open>void\<close> function
    returns \<open>Exception option\<close>, and a function that mutates the table or the transaction
    returns them, also when it throws, so that the state at the throw is visible.
  \<^item> A failed \<^verbatim>\<open>assert\<close> is the value \<open>InternalError\<close>.  The assertion of
    \<^verbatim>\<open>VerifyUniqueConstraint\<close> guards code that is defined without it; there the
    model has both builds, the one with assertions and the one without (\<open>NDEBUG\<close>).
  \<^item> Raw arrays (vector buffers, selection vectors, the vectors of a chunk, the block of
    a segment) are functions from positions; \<^verbatim>\<open>std::vector\<close>s are lists.  The source
    does not check an index; a bound constraint names a column of the catalog, and the
    model reads the list of columns there.
  \<^item> Locks and the string heaps are left out: every value has a fixed width, and a
    call runs alone.
  \<^item> Constants, types and helpers that are declared outside the file are parameters
    (\<open>Env\<close>, \<open>IndexOps\<close>) or are modelled from the specification, and say so.
\<close>

subsection \<open>Exceptions, vectors, chunks\<close>

datatype Exception =
    ConstraintException string
  | TransactionException string
  | CatalogException string
  | NotImplementedException string
  | InternalError string

text \<open>Modelled from the spec: the enumeration \<^verbatim>\<open>TypeId\<close> is declared in a header that
  is not among the sources; the file only names \<^verbatim>\<open>TypeId::INTEGER\<close> and \<^verbatim>\<open>ROW_TYPE\<close>
  and asks every other type for its size.\<close>

datatype TypeId = BOOLEAN | TINYINT | SMALLINT | INTEGER | BIGINT | OTHER_TYPE nat

type_synonym sel_vector_t = "(nat \<Rightarrow> nat) option"

record Vector =
  vec_type :: TypeId
  vec_count :: nat
  vec_data :: "nat \<Rightarrow> int"
  vec_nullmask :: "nat set"
  vec_sel_vector :: sel_vector_t

record DataChunk =
  column_count :: nat
  chunk_data :: "nat \<Rightarrow> Vector"
  chunk_sel_vector :: sel_vector_t

text \<open>The constants and helpers the file takes from headers that are not among the
  sources, and the build: \<open>NDEBUG\<close> is true when the macro \<^verbatim>\<open>NDEBUG\<close> is defined, which
  compiles the calls of \<^verbatim>\<open>assert\<close> out.\<close>

record Env =
  BLOCK_SIZE :: nat
  STORAGE_CHUNK_SIZE :: nat
  STANDARD_VECTOR_SIZE :: nat
  TRANSACTION_ID_START :: nat
  ROW_TYPE :: TypeId
  GetTypeIdSize :: "TypeId \<Rightarrow> nat"
  chunk_Verify :: "DataChunk \<Rightarrow> bool"
  NDEBUG :: bool

definition usub :: "nat \<Rightarrow> nat \<Rightarrow> nat" where
  "usub a b = (if b \<le> a then a - b else a + 2 ^ 64 - b)"

text \<open>The position of the \<open>k\<close>-th entry of a vector:
  \<^verbatim>\<open>sel_vector ? sel_vector[k] : k\<close> (lines 103, 250, 466).\<close>

definition sel_index :: "sel_vector_t \<Rightarrow> nat \<Rightarrow> nat" where
  "sel_index sel k = (case sel of None \<Rightarrow> k | Some s \<Rightarrow> s k)"

text \<open>Modelled from the spec: \<^verbatim>\<open>VectorOperations::Exec(vector, (i,k) -> ...)\<close> is
  declared outside the sources; it calls the function on the pairs \<open>(i, k)\<close>, \<open>k\<close> from
  \<open>0\<close> to \<open>count - 1\<close> in this order and \<open>i\<close> the position of the \<open>k\<close>-th entry.\<close>

definition Exec_pairs :: "Vector \<Rightarrow> (nat \<times> nat) list" where
  "Exec_pairs v = map (\<lambda>k. (sel_index (vec_sel_vector v) k, k)) [0..<vec_count v]"

text \<open>Modelled from the spec: \<^verbatim>\<open>DataChunk::size()\<close> is declared outside the sources;
  the size of a chunk is the count of its first vector (line 290 sets the size of the
  mock chunk this way), and \<open>0\<close> for a chunk with no column.\<close>

definition chunk_size :: "DataChunk \<Rightarrow> nat" where
  "chunk_size c = (if column_count c = 0 then 0 else vec_count (chunk_data c 0))"

text \<open>Modelled from the spec: \<^verbatim>\<open>VectorOperations::HasNull\<close> is declared outside the
  sources; "the referenced column vector contains any null".\<close>

definition HasNull :: "Vector \<Rightarrow> bool" where
  "HasNull v = list_ex (\<lambda>(i, k). i \<in> vec_nullmask v) (Exec_pairs v)"

text \<open>Modelled from the spec: \<^verbatim>\<open>VectorOperations::Unique\<close> is declared outside the
  sources; it answers whether "the referenced column within the input chunk contains
  duplicates".  The entries of the column are its \<open>count\<close> selected positions; a null
  entry is no value and duplicates nothing.\<close>

definition vector_values :: "Vector \<Rightarrow> int list" where
  "vector_values v =
     map (\<lambda>(i, k). vec_data v i) (filter (\<lambda>(i, k). i \<notin> vec_nullmask v) (Exec_pairs v))"

definition Unique :: "Vector \<Rightarrow> bool" where
  "Unique v = distinct (vector_values v)"

subsection \<open>The catalog entry and its bound constraints\<close>

text \<open>The expression evaluator is a black box: a bound expression is what
  \<^verbatim>\<open>ExecuteExpression\<close> does with it on a chunk.  It fills the result vector, throws
  an \<^verbatim>\<open>Exception\<close> with a message, or throws something else.\<close>

datatype ExecResult = Returns Vector | Throws string | ThrowsUnknown

type_synonym Expression = "DataChunk \<Rightarrow> ExecResult"

text \<open>The keys of a UNIQUE constraint are an \<^verbatim>\<open>unordered_set\<close>: the list of its
  elements in their order of iteration, and \<^verbatim>\<open>keys.size()\<close> is its length.\<close>

datatype BoundConstraint =
    NOT_NULL nat
  | CHECK Expression "nat list"
  | UNIQUE "nat list"
  | FOREIGN_KEY
  | OTHER_CONSTRAINT

record ColumnDefinition =
  col_name :: string
  col_type :: TypeId

record TableCatalogEntry =
  table_name :: string
  table_columns :: "ColumnDefinition list"
  bound_constraints :: "BoundConstraint list"

definition GetTypes :: "TableCatalogEntry \<Rightarrow> TypeId list" where
  "GetTypes table = map col_type (table_columns table)"

subsection \<open>Constraint verification (lines 84 to 145 and 281 to 356)\<close>

definition VerifyNotNullConstraint :: "TableCatalogEntry \<Rightarrow> Vector \<Rightarrow> string \<Rightarrow> Exception option" where
  "VerifyNotNullConstraint table vector name =
     (if HasNull vector
      then Some (ConstraintException
             (''NOT NULL constraint failed: '' @ table_name table @ ''.'' @ name))
      else None)"

text \<open>The loop of lines 102 to 107 throws at the first entry that is not null and is
  zero.\<close>

definition check_entry_fails :: "Vector \<Rightarrow> nat \<Rightarrow> bool" where
  "check_entry_fails result i =
     (let index = sel_index (vec_sel_vector result) i
      in index \<notin> vec_nullmask result \<and> vec_data result index = 0)"

definition VerifyCheckConstraint :: "TableCatalogEntry \<Rightarrow> Expression \<Rightarrow> DataChunk \<Rightarrow> Exception option" where
  "VerifyCheckConstraint table expr chunk =
     (case expr chunk of
        Throws what \<Rightarrow>
          Some (ConstraintException
            (''CHECK constraint failed: '' @ table_name table @ '' (Error: '' @ what @ '')''))
      | ThrowsUnknown \<Rightarrow>
          Some (ConstraintException
            (''CHECK constraint failed: '' @ table_name table @ '' (Unknown Error)''))
      | Returns result \<Rightarrow>
          (if list_ex (check_entry_fails result) [0..<vec_count result]
           then Some (ConstraintException (''CHECK constraint failed: '' @ table_name table))
           else None))"

text \<open>The loop of lines 114 to 118 over the keys, in their order of iteration.\<close>

fun unique_keys_loop :: "nat list \<Rightarrow> DataChunk \<Rightarrow> Exception option" where
  "unique_keys_loop [] chunk = None"
| "unique_keys_loop (key # keys) chunk =
     (if \<not> Unique (chunk_data chunk key)
      then Some (ConstraintException
             ''duplicate key value violates primary key or unique constraint'')
      else unique_keys_loop keys chunk)"

text \<open>Lines 110 to 119.  With assertions compiled in, a set of keys that does not
  have one element fails the assertion of line 112; with \<^verbatim>\<open>NDEBUG\<close> the assertion is
  gone and the loop checks each key column on its own.\<close>

definition VerifyUniqueConstraint :: "Env \<Rightarrow> TableCatalogEntry \<Rightarrow> nat list \<Rightarrow> DataChunk \<Rightarrow> Exception option" where
  "VerifyUniqueConstraint env table keys chunk =
     (if \<not> NDEBUG env \<and> length keys \<noteq> 1
      then Some (InternalError ''assert(keys.size() == 1)'')
      else unique_keys_loop keys chunk)"

definition not_implemented :: Exception where
  "not_implemented = NotImplementedException ''Constraint type not implemented!''"

definition verify_append_constraint :: "Env \<Rightarrow> TableCatalogEntry \<Rightarrow> DataChunk \<Rightarrow> BoundConstraint \<Rightarrow> Exception option" where
  "verify_append_constraint env table chunk constraint =
     (case constraint of
        NOT_NULL index \<Rightarrow>
          VerifyNotNullConstraint table (chunk_data chunk index)
            (col_name (table_columns table ! index))
      | CHECK expression bound_columns \<Rightarrow> VerifyCheckConstraint table expression chunk
      | UNIQUE keys \<Rightarrow> VerifyUniqueConstraint env table keys chunk
      | FOREIGN_KEY \<Rightarrow> Some not_implemented
      | OTHER_CONSTRAINT \<Rightarrow> Some not_implemented)"

fun verify_append_loop :: "Env \<Rightarrow> TableCatalogEntry \<Rightarrow> DataChunk \<Rightarrow> BoundConstraint list \<Rightarrow> Exception option" where
  "verify_append_loop env table chunk [] = None"
| "verify_append_loop env table chunk (constraint # rest) =
     (case verify_append_constraint env table chunk constraint of
        Some ex \<Rightarrow> Some ex
      | None \<Rightarrow> verify_append_loop env table chunk rest)"

definition VerifyAppendConstraints :: "Env \<Rightarrow> TableCatalogEntry \<Rightarrow> DataChunk \<Rightarrow> Exception option" where
  "VerifyAppendConstraints env table chunk =
     verify_append_loop env table chunk (bound_constraints table)"

text \<open>Modelled from the spec: \<^verbatim>\<open>InitializeEmpty\<close> and \<^verbatim>\<open>Reference\<close> are declared
  outside the sources.  An empty chunk has one empty vector for each type; a vector
  that references another one is that vector.\<close>

definition empty_vector :: "TypeId \<Rightarrow> Vector" where
  "empty_vector t =
     \<lparr>vec_type = t, vec_count = 0, vec_data = (\<lambda>_. 0), vec_nullmask = {}, vec_sel_vector = None\<rparr>"

definition InitializeEmpty :: "TypeId list \<Rightarrow> DataChunk" where
  "InitializeEmpty ts =
     \<lparr>column_count = length ts,
      chunk_data = (\<lambda>i. empty_vector (if i < length ts then ts ! i else OTHER_TYPE 0)),
      chunk_sel_vector = None\<rparr>"

text \<open>The loop of lines 286 to 289; \<open>i\<close> is the position in \<^verbatim>\<open>column_ids\<close> of the head of
  the list.\<close>

fun mock_chunk_loop :: "DataChunk \<Rightarrow> nat \<Rightarrow> nat list \<Rightarrow> DataChunk \<Rightarrow> DataChunk" where
  "mock_chunk_loop chunk i [] mock_chunk = mock_chunk"
| "mock_chunk_loop chunk i (column_id # rest) mock_chunk =
     mock_chunk_loop chunk (Suc i) rest
       (mock_chunk\<lparr>chunk_data := (chunk_data mock_chunk)(column_id := chunk_data chunk i),
                   chunk_sel_vector := vec_sel_vector (chunk_data chunk i)\<rparr>)"

definition CreateMockChunk :: "TableCatalogEntry \<Rightarrow> nat list \<Rightarrow> DataChunk \<Rightarrow> DataChunk" where
  "CreateMockChunk table column_ids chunk =
     (let mock_chunk = mock_chunk_loop chunk 0 column_ids (InitializeEmpty (GetTypes table))
      in mock_chunk\<lparr>chunk_data := (chunk_data mock_chunk)
           (0 := (chunk_data mock_chunk 0)\<lparr>vec_count := chunk_size chunk\<rparr>)\<rparr>)"

text \<open>The overload of lines 293 to 315: \<open>Inl\<close> the exception, \<open>Inr None\<close> for
  \<^verbatim>\<open>false\<close>, \<open>Inr (Some mock_chunk)\<close> for \<^verbatim>\<open>true\<close>.\<close>

definition CreateMockChunk_desired :: "TableCatalogEntry \<Rightarrow> nat list \<Rightarrow> nat list \<Rightarrow> DataChunk \<Rightarrow> Exception + DataChunk option" where
  "CreateMockChunk_desired table column_ids desired_column_ids chunk =
     (let found_columns = length (filter (\<lambda>c. c \<in> set desired_column_ids) column_ids)
      in if found_columns = 0 then Inr None
         else if found_columns \<noteq> length desired_column_ids
         then Inl (NotImplementedException
           ''Not all columns required for the CHECK constraint are present in the UPDATED chunk!'')
         else Inr (Some (CreateMockChunk table column_ids chunk)))"

text \<open>The inner loop of lines 323 to 329: the first position of \<^verbatim>\<open>column_ids\<close> that holds
  the index of the constraint.\<close>

fun not_null_update_loop :: "TableCatalogEntry \<Rightarrow> DataChunk \<Rightarrow> nat \<Rightarrow> nat \<Rightarrow> nat list \<Rightarrow> Exception option" where
  "not_null_update_loop table chunk index i [] = None"
| "not_null_update_loop table chunk index i (column_id # rest) =
     (if column_id = index
      then VerifyNotNullConstraint table (chunk_data chunk i)
             (col_name (table_columns table ! index))
      else not_null_update_loop table chunk index (Suc i) rest)"

definition verify_update_constraint :: "Env \<Rightarrow> TableCatalogEntry \<Rightarrow> DataChunk \<Rightarrow> nat list \<Rightarrow> BoundConstraint \<Rightarrow> Exception option" where
  "verify_update_constraint env table chunk column_ids constraint =
     (case constraint of
        NOT_NULL index \<Rightarrow> not_null_update_loop table chunk index 0 column_ids
      | CHECK expression bound_columns \<Rightarrow>
          (case CreateMockChunk_desired table column_ids bound_columns chunk of
             Inl ex \<Rightarrow> Some ex
           | Inr None \<Rightarrow> None
           | Inr (Some mock_chunk) \<Rightarrow> VerifyCheckConstraint table expression mock_chunk)
      | UNIQUE keys \<Rightarrow>
          (case CreateMockChunk_desired table column_ids keys chunk of
             Inl ex \<Rightarrow> Some ex
           | Inr None \<Rightarrow> None
           | Inr (Some mock_chunk) \<Rightarrow> VerifyUniqueConstraint env table keys mock_chunk)
      | FOREIGN_KEY \<Rightarrow> None
      | OTHER_CONSTRAINT \<Rightarrow> Some not_implemented)"

fun verify_update_loop :: "Env \<Rightarrow> TableCatalogEntry \<Rightarrow> DataChunk \<Rightarrow> nat list \<Rightarrow> BoundConstraint list \<Rightarrow> Exception option" where
  "verify_update_loop env table chunk column_ids [] = None"
| "verify_update_loop env table chunk column_ids (constraint # rest) =
     (case verify_update_constraint env table chunk column_ids constraint of
        Some ex \<Rightarrow> Some ex
      | None \<Rightarrow> verify_update_loop env table chunk column_ids rest)"

definition VerifyUpdateConstraints :: "Env \<Rightarrow> TableCatalogEntry \<Rightarrow> DataChunk \<Rightarrow> nat list \<Rightarrow> Exception option" where
  "VerifyUpdateConstraints env table chunk column_ids =
     verify_update_loop env table chunk column_ids (bound_constraints table)"

subsection \<open>Index coordination (lines 147 to 173 and 358 to 390)\<close>

text \<open>An index is a capability declared outside the sources: its state is a type
  parameter and its three operations are parameters.  \<open>index_Append\<close> returns the answer
  and the index after the call, \<open>index_Delete\<close> the index after the call.\<close>

record 'ix IndexOps =
  index_Append :: "'ix \<Rightarrow> DataChunk \<Rightarrow> Vector \<Rightarrow> bool \<times> 'ix"
  index_Delete :: "'ix \<Rightarrow> DataChunk \<Rightarrow> Vector \<Rightarrow> 'ix"
  IndexIsUpdated :: "'ix \<Rightarrow> nat list \<Rightarrow> bool"

text \<open>Modelled from the spec: \<^verbatim>\<open>VectorOperations::GenerateSequence\<close> is declared outside
  the sources; it fills the vector with "a row-id vector [row_start, row_start+n)
  respecting the chunk's selection vector".\<close>

definition GenerateSequence :: "Vector \<Rightarrow> int \<Rightarrow> Vector" where
  "GenerateSequence v start =
     v\<lparr>vec_data := fold (\<lambda>k d. d(sel_index (vec_sel_vector v) k := start + int k))
                       [0..<vec_count v] (vec_data v)\<rparr>"

definition append_row_identifiers :: "Env \<Rightarrow> DataChunk \<Rightarrow> int \<Rightarrow> Vector" where
  "append_row_identifiers env chunk row_start =
     GenerateSequence
       \<lparr>vec_type = ROW_TYPE env, vec_count = chunk_size chunk, vec_data = (\<lambda>_. 0),
        vec_nullmask = {}, vec_sel_vector = chunk_sel_vector chunk\<rparr> row_start"

text \<open>The loop of lines 159 to 164.  The list is the part of \<^verbatim>\<open>indexes\<close> from position
  \<open>i\<close> on; the result is that part after the loop and \<^verbatim>\<open>failed_index\<close>
  (\<open>None\<close> for \<^verbatim>\<open>INVALID_INDEX\<close>).\<close>

fun append_indexes_loop :: "'ix IndexOps \<Rightarrow> DataChunk \<Rightarrow> Vector \<Rightarrow> nat \<Rightarrow> 'ix list \<Rightarrow> 'ix list \<times> nat option" where
  "append_indexes_loop ops chunk row_identifiers i [] = ([], None)"
| "append_indexes_loop ops chunk row_identifiers i (index # rest) =
     (case index_Append ops index chunk row_identifiers of
        (ok, index') \<Rightarrow>
          if \<not> ok then (index' # rest, Some i)
          else (case append_indexes_loop ops chunk row_identifiers (Suc i) rest of
                  (rest', failed_index) \<Rightarrow> (index' # rest', failed_index)))"

text \<open>The loop of lines 168 to 170: \<^verbatim>\<open>Delete\<close> on the indexes before
  \<^verbatim>\<open>failed_index\<close>.\<close>

definition delete_indexes_loop :: "'ix IndexOps \<Rightarrow> DataChunk \<Rightarrow> Vector \<Rightarrow> nat \<Rightarrow> 'ix list \<Rightarrow> 'ix list" where
  "delete_indexes_loop ops chunk row_identifiers failed_index ixs =
     map (\<lambda>index. index_Delete ops index chunk row_identifiers) (take failed_index ixs)
       @ drop failed_index ixs"

definition duplicated_key :: Exception where
  "duplicated_key =
     ConstraintException ''PRIMARY KEY or UNIQUE constraint violated: duplicated key''"

definition AppendToIndexes :: "Env \<Rightarrow> 'ix IndexOps \<Rightarrow> 'ix list \<Rightarrow> DataChunk \<Rightarrow> int \<Rightarrow> 'ix list \<times> Exception option" where
  "AppendToIndexes env ops ixs chunk row_start =
     (if length ixs = 0 then (ixs, None)
      else
        let row_identifiers = append_row_identifiers env chunk row_start
        in case append_indexes_loop ops chunk row_identifiers 0 ixs of
             (ixs', None) \<Rightarrow> (ixs', None)
           | (ixs', Some failed_index) \<Rightarrow>
               (delete_indexes_loop ops chunk row_identifiers failed_index ixs',
                Some duplicated_key))"

text \<open>The loop of lines 369 to 379, which skips the indexes the update does not
  touch.\<close>

fun update_indexes_loop :: "'ix IndexOps \<Rightarrow> nat list \<Rightarrow> DataChunk \<Rightarrow> Vector \<Rightarrow> nat \<Rightarrow> 'ix list \<Rightarrow> 'ix list \<times> nat option" where
  "update_indexes_loop ops column_ids mock_chunk row_identifiers i [] = ([], None)"
| "update_indexes_loop ops column_ids mock_chunk row_identifiers i (index # rest) =
     (if \<not> IndexIsUpdated ops index column_ids
      then (case update_indexes_loop ops column_ids mock_chunk row_identifiers (Suc i) rest of
              (rest', failed_index) \<Rightarrow> (index # rest', failed_index))
      else (case index_Append ops index mock_chunk row_identifiers of
              (ok, index') \<Rightarrow>
                if \<not> ok then (index' # rest, Some i)
                else (case update_indexes_loop ops column_ids mock_chunk row_identifiers (Suc i) rest of
                        (rest', failed_index) \<Rightarrow> (index' # rest', failed_index))))"

text \<open>The loop of lines 383 to 387.\<close>

definition delete_updated_loop :: "'ix IndexOps \<Rightarrow> nat list \<Rightarrow> DataChunk \<Rightarrow> Vector \<Rightarrow> nat \<Rightarrow> 'ix list \<Rightarrow> 'ix list" where
  "delete_updated_loop ops column_ids mock_chunk row_identifiers failed_index ixs =
     map (\<lambda>index. if IndexIsUpdated ops index column_ids
                   then index_Delete ops index mock_chunk row_identifiers else index)
         (take failed_index ixs)
       @ drop failed_index ixs"

definition UpdateIndexes :: "'ix IndexOps \<Rightarrow> 'ix list \<Rightarrow> TableCatalogEntry \<Rightarrow> nat list \<Rightarrow> DataChunk \<Rightarrow> Vector \<Rightarrow> 'ix list \<times> Exception option" where
  "UpdateIndexes ops ixs table column_ids updates row_identifiers =
     (if length ixs = 0 then (ixs, None)
      else
        let mock_chunk = CreateMockChunk table column_ids updates
        in case update_indexes_loop ops column_ids mock_chunk row_identifiers 0 ixs of
             (ixs', None) \<Rightarrow> (ixs', None)
           | (ixs', Some failed_index) \<Rightarrow>
               (delete_updated_loop ops column_ids mock_chunk row_identifiers failed_index ixs',
                Some duplicated_key))"

subsection \<open>Segments, version chunks, the transaction, the table\<close>

text \<open>Modelled from the spec: the classes \<^verbatim>\<open>ColumnSegment\<close>, \<^verbatim>\<open>SegmentTree\<close>,
  \<^verbatim>\<open>VersionChunk\<close>, \<^verbatim>\<open>VersionInfo\<close>, \<^verbatim>\<open>Transaction\<close> and \<^verbatim>\<open>ColumnStatistics\<close> are
  declared outside the sources; their fields are those of the data model of the
  specification.  The block of a segment maps the byte offset of an element to the value
  stored there; \<open>None\<close> is the null sentinel of the type.  A segment tree is the list of
  its nodes; a pointer to a segment or a chunk is its position in the list (nodes are
  only ever appended).  The version chain of a row is a list, newest first.\<close>

type_synonym cell = "int option"

record ColumnSegment =
  seg_start :: nat
  seg_count :: nat
  seg_offset :: nat
  seg_block :: "nat \<Rightarrow> cell"

definition new_ColumnSegment :: "nat \<Rightarrow> ColumnSegment" where
  "new_ColumnSegment start =
     \<lparr>seg_start = start, seg_count = 0, seg_offset = 0, seg_block = (\<lambda>_. None)\<rparr>"

record ColumnPointer =
  cp_segment :: nat
  cp_offset :: nat

datatype UndoFlags = INSERT_TUPLE | DELETE_TUPLE | UPDATE_TUPLE

record VersionInfo =
  version_number :: nat
  tuple_data :: "cell list option"

record UndoEntry =
  undo_flag :: UndoFlags
  undo_chunk_start :: nat
  undo_row :: nat
  undo_tuple :: "cell list option"

record Transaction =
  transaction_id :: nat
  start_time :: nat
  undo_buffer :: "UndoEntry list"

record VersionChunk =
  vc_start :: nat
  vc_count :: nat
  vc_columns :: "ColumnPointer list"
  vc_versions :: "nat \<Rightarrow> VersionInfo list"
  vc_deleted :: "nat set"

record ColumnStatistics =
  stat_has_null :: bool
  stat_min :: "int option"
  stat_max :: "int option"

record 'ix DataTable =
  cardinality :: nat
  tbl_types :: "TypeId list"
  columns :: "ColumnSegment list list"
  storage_tree :: "VersionChunk list"
  statistics :: "ColumnStatistics list"
  indexes :: "'ix list"

text \<open>Modelled from the spec: \<^verbatim>\<open>ColumnStatistics::Update\<close>, the "per-column running
  min/max/has-null summary".\<close>

definition Statistics_Update :: "ColumnStatistics \<Rightarrow> Vector \<Rightarrow> ColumnStatistics" where
  "Statistics_Update st v =
     \<lparr>stat_has_null = (stat_has_null st \<or> HasNull v),
      stat_min = fold (\<lambda>x m. Some (case m of None \<Rightarrow> x | Some y \<Rightarrow> min x y)) (vector_values v) (stat_min st),
      stat_max = fold (\<lambda>x m. Some (case m of None \<Rightarrow> x | Some y \<Rightarrow> max x y)) (vector_values v) (stat_max st)\<rparr>"

text \<open>Modelled from the spec: \<^verbatim>\<open>SegmentTree::GetSegment\<close>, the "lookup by key returning
  the segment whose [start, start+count) contains the key".  The list holds the start
  and the count of each node; the answer is the position of the node, \<open>None\<close> when no node
  contains the key.\<close>

fun GetSegment_from :: "nat \<Rightarrow> (nat \<times> nat) list \<Rightarrow> nat \<Rightarrow> nat option" where
  "GetSegment_from i [] row = None"
| "GetSegment_from i ((start, cnt) # rest) row =
     (if start \<le> row \<and> row < start + cnt then Some i else GetSegment_from (Suc i) rest row)"

definition GetChunk :: "'ix DataTable \<Rightarrow> int \<Rightarrow> nat option" where
  "GetChunk tbl row_number =
     (if row_number < 0 then None
      else GetSegment_from 0 (map (\<lambda>c. (vc_start c, vc_count c)) (storage_tree tbl)) (nat row_number))"

definition no_chunk :: Exception where
  "no_chunk = InternalError ''Could not find node in column segment tree!''"

text \<open>Modelled from the spec: \<^verbatim>\<open>VersionChunk::GetPointerToRow(column, row_id)\<close> yields
  the position of the value of a row in the base segments of a column.  By the data
  model a segment holds the elements of the rows \<open>start\<close> to \<open>start + count - 1\<close> one after
  the other; the position is the segment and the byte offset in its block.\<close>

definition GetPointerToRow :: "Env \<Rightarrow> 'ix DataTable \<Rightarrow> nat \<Rightarrow> int \<Rightarrow> (nat \<times> nat) option" where
  "GetPointerToRow env tbl column row_id =
     (if row_id < 0 \<or> length (columns tbl) \<le> column \<or> length (tbl_types tbl) \<le> column then None
      else
        case GetSegment_from 0 (map (\<lambda>s. (seg_start s, seg_count s)) (columns tbl ! column))
               (nat row_id) of
          None \<Rightarrow> None
        | Some si \<Rightarrow>
            Some (si, (nat row_id - seg_start (columns tbl ! column ! si))
                        * GetTypeIdSize env (tbl_types tbl ! column)))"

definition read_cell :: "Env \<Rightarrow> 'ix DataTable \<Rightarrow> nat \<Rightarrow> int \<Rightarrow> cell" where
  "read_cell env tbl column row_id =
     (case GetPointerToRow env tbl column row_id of
        None \<Rightarrow> None
      | Some (si, pos) \<Rightarrow> seg_block (columns tbl ! column ! si) pos)"

definition current_tuple :: "Env \<Rightarrow> 'ix DataTable \<Rightarrow> int \<Rightarrow> cell list" where
  "current_tuple env tbl row_id =
     map (\<lambda>column. read_cell env tbl column row_id) [0..<length (tbl_types tbl)]"

text \<open>Modelled from the spec: \<^verbatim>\<open>VersionChunk::GetVersionInfo\<close> returns "the head of the
  version chain for that row (or null)".\<close>

definition GetVersionInfo :: "VersionChunk \<Rightarrow> nat \<Rightarrow> VersionInfo option" where
  "GetVersionInfo chunk row = (case vc_versions chunk row of [] \<Rightarrow> None | v # _ \<Rightarrow> Some v)"

text \<open>Modelled from the spec: \<^verbatim>\<open>VersionChunk::PushTuple\<close> does "copy the current tuple
  (serialized form across all columns) into the undo buffer, prepend the new
  version-info node to the chunk slot at row_offset".  The chunk is the one at position
  \<open>ci\<close> of the storage tree.\<close>

definition PushTuple :: "Env \<Rightarrow> 'ix DataTable \<Rightarrow> nat \<Rightarrow> Transaction \<Rightarrow> UndoFlags \<Rightarrow> nat \<Rightarrow> 'ix DataTable \<times> Transaction" where
  "PushTuple env tbl ci txn flag row =
     (let chunk = storage_tree tbl ! ci;
          image = current_tuple env tbl (int (vc_start chunk + row));
          info = \<lparr>version_number = transaction_id txn, tuple_data = Some image\<rparr>;
          entry = \<lparr>undo_flag = flag, undo_chunk_start = vc_start chunk, undo_row = row,
                   undo_tuple = Some image\<rparr>
      in (tbl\<lparr>storage_tree := (storage_tree tbl)
                [ci := chunk\<lparr>vc_versions := (vc_versions chunk)(row := info # vc_versions chunk row)\<rparr>]\<rparr>,
          txn\<lparr>undo_buffer := undo_buffer txn @ [entry]\<rparr>))"

text \<open>Modelled from the spec: \<^verbatim>\<open>VersionChunk::SetDeleted\<close> does "set the deleted
  bit".\<close>

definition SetDeleted :: "'ix DataTable \<Rightarrow> nat \<Rightarrow> nat \<Rightarrow> 'ix DataTable" where
  "SetDeleted tbl ci row =
     (let chunk = storage_tree tbl ! ci
      in tbl\<lparr>storage_tree := (storage_tree tbl)
               [ci := chunk\<lparr>vc_deleted := insert row (vc_deleted chunk)\<rparr>]\<rparr>)"

text \<open>Modelled from the spec: \<^verbatim>\<open>VersionChunk::PushDeletedEntries\<close> does "reserve n
  version-info slots at the chunk tail marked newly inserted, chained into the
  transaction's undo buffer".\<close>

definition PushDeletedEntries :: "VersionChunk \<Rightarrow> Transaction \<Rightarrow> nat \<Rightarrow> VersionChunk \<times> Transaction" where
  "PushDeletedEntries chunk txn n =
     (chunk\<lparr>vc_versions := (\<lambda>row.
          if vc_count chunk \<le> row \<and> row < vc_count chunk + n
          then \<lparr>version_number = transaction_id txn, tuple_data = None\<rparr> # vc_versions chunk row
          else vc_versions chunk row)\<rparr>,
      txn\<lparr>undo_buffer := undo_buffer txn @
          map (\<lambda>k. \<lparr>undo_flag = INSERT_TUPLE, undo_chunk_start = vc_start chunk,
                     undo_row = vc_count chunk + k, undo_tuple = None\<rparr>) [0..<n]\<rparr>)"

text \<open>Modelled from the spec: \<^verbatim>\<open>VectorOperations::CopyToStorage\<close> is the "bulk copy with
  null-awareness (nulls are materialized as type-specific sentinels by the vector copy
  primitive)": the entries \<open>offset\<close> to \<open>offset + n - 1\<close> of the vector go to the block from
  the byte \<open>target\<close> on, one every \<open>type_size\<close> bytes.\<close>

definition vector_cell :: "Vector \<Rightarrow> nat \<Rightarrow> cell" where
  "vector_cell v k =
     (let i = sel_index (vec_sel_vector v) k
      in if i \<in> vec_nullmask v then None else Some (vec_data v i))"

definition CopyToStorage :: "Vector \<Rightarrow> (nat \<Rightarrow> cell) \<Rightarrow> nat \<Rightarrow> nat \<Rightarrow> nat \<Rightarrow> nat \<Rightarrow> (nat \<Rightarrow> cell)" where
  "CopyToStorage v block target type_size offset n =
     fold (\<lambda>k b. b(target + k * type_size := vector_cell v (offset + k))) [0..<n] block"

subsection \<open>The constructor, AppendVersionChunk, AppendVector (lines 19 to 79)\<close>

definition AppendVersionChunk :: "'ix DataTable \<Rightarrow> nat \<Rightarrow> 'ix DataTable" where
  "AppendVersionChunk tbl start =
     tbl\<lparr>storage_tree := storage_tree tbl @
       [\<lparr>vc_start = start, vc_count = 0,
         vc_columns = map (\<lambda>i. \<lparr>cp_segment = length (columns tbl ! i) - 1,
                                 cp_offset = seg_count (last (columns tbl ! i))\<rparr>)
                          [0..<length (tbl_types tbl)],
         vc_versions = (\<lambda>_. []), vc_deleted = {}\<rparr>]\<rparr>"

definition DataTable_new :: "TypeId list \<Rightarrow> 'ix DataTable" where
  "DataTable_new ts =
     AppendVersionChunk
       \<lparr>cardinality = 0, tbl_types = ts,
        columns = map (\<lambda>_. [new_ColumnSegment 0]) ts,
        storage_tree = [],
        statistics = map (\<lambda>_. \<lparr>stat_has_null = False, stat_min = None, stat_max = None\<rparr>) ts,
        indexes = []\<rparr> 0"

text \<open>\<^verbatim>\<open>AppendVector\<close> on the segment tree of the column.  \<open>None\<close>: the call does not
  return (it recurses for ever when no element fits an empty block; a division by zero
  and the last node of an empty tree have no defined behaviour).\<close>

partial_function (option) AppendVector_tree :: "nat \<Rightarrow> nat \<Rightarrow> ColumnSegment list \<Rightarrow> Vector \<Rightarrow> nat \<Rightarrow> nat \<Rightarrow> ColumnSegment list option" where
  "AppendVector_tree block_size type_size tree data offset count =
     (if tree = [] \<or> type_size = 0 then None
      else
        let segment = last tree;
            start_position = seg_offset segment;
            elements_to_copy = min (usub block_size start_position div type_size) count;
            segment' =
              (if elements_to_copy > 0
               then segment\<lparr>seg_block := CopyToStorage data (seg_block segment) start_position
                                            type_size offset elements_to_copy,
                            seg_count := seg_count segment + elements_to_copy,
                            seg_offset := seg_offset segment + elements_to_copy * type_size\<rparr>
               else segment);
            offset' = (if elements_to_copy > 0 then offset + elements_to_copy else offset);
            tree' = butlast tree @ [segment']
        in if elements_to_copy < count
           then AppendVector_tree block_size type_size
                  (tree' @ [new_ColumnSegment (seg_start segment' + seg_count segment')])
                  data offset' (count - elements_to_copy)
           else Some tree')"

declare AppendVector_tree.simps [code]

definition AppendVector :: "Env \<Rightarrow> 'ix DataTable \<Rightarrow> nat \<Rightarrow> Vector \<Rightarrow> nat \<Rightarrow> nat \<Rightarrow> 'ix DataTable option" where
  "AppendVector env tbl column_index data offset count =
     (if length (columns tbl) \<le> column_index \<or> length (tbl_types tbl) \<le> column_index then None
      else
        case AppendVector_tree (BLOCK_SIZE env) (GetTypeIdSize env (tbl_types tbl ! column_index))
               (columns tbl ! column_index) data offset count of
          None \<Rightarrow> None
        | Some tree \<Rightarrow> Some (tbl\<lparr>columns := (columns tbl)[column_index := tree]\<rparr>))"

subsection \<open>Append (lines 175 to 235)\<close>

text \<open>The loop of lines 219 to 221 over the columns of the chunk.\<close>

fun append_columns_loop :: "Env \<Rightarrow> DataChunk \<Rightarrow> nat \<Rightarrow> nat \<Rightarrow> nat list \<Rightarrow> 'ix DataTable \<Rightarrow> 'ix DataTable option" where
  "append_columns_loop env chunk offset to_copy [] tbl = Some tbl"
| "append_columns_loop env chunk offset to_copy (i # rest) tbl =
     (case AppendVector env tbl i (chunk_data chunk i) offset to_copy of
        None \<Rightarrow> None
      | Some tbl' \<Rightarrow> append_columns_loop env chunk offset to_copy rest tbl')"

definition set_last_chunk :: "'ix DataTable \<Rightarrow> VersionChunk \<Rightarrow> 'ix DataTable" where
  "set_last_chunk tbl chunk = tbl\<lparr>storage_tree := butlast (storage_tree tbl) @ [chunk]\<rparr>"

text \<open>The loop of lines 213 to 230.  \<^verbatim>\<open>last_chunk\<close> is the last node of the storage tree
  throughout: \<^verbatim>\<open>AppendVersionChunk\<close> returns the node it appends.  \<open>None\<close>: the loop does
  not return.\<close>

partial_function (option) append_loop :: "Env \<Rightarrow> DataChunk \<Rightarrow> 'ix DataTable \<Rightarrow> Transaction \<Rightarrow> nat \<Rightarrow> nat \<Rightarrow> ('ix DataTable \<times> Transaction) option" where
  "append_loop env chunk tbl txn offset remainder =
     (if remainder > 0 then
        (if storage_tree tbl = [] then None
         else
           let last_chunk = last (storage_tree tbl);
               to_copy = min (usub (STORAGE_CHUNK_SIZE env) (vc_count last_chunk)) remainder
           in if to_copy > 0 then
                (case PushDeletedEntries last_chunk txn to_copy of
                   (pushed, txn') \<Rightarrow>
                     (case append_columns_loop env chunk offset to_copy [0..<column_count chunk]
                             (set_last_chunk tbl pushed) of
                        None \<Rightarrow> None
                      | Some tbl1 \<Rightarrow>
                          let last_chunk' = (last (storage_tree tbl1))
                                \<lparr>vc_count := vc_count (last (storage_tree tbl1)) + to_copy\<rparr>;
                              tbl2 = set_last_chunk tbl1 last_chunk'
                          in if remainder - to_copy > 0
                             then append_loop env chunk
                                    (AppendVersionChunk tbl2 (vc_start last_chunk' + vc_count last_chunk'))
                                    txn' (offset + to_copy) (remainder - to_copy)
                             else append_loop env chunk tbl2 txn' (offset + to_copy)
                                    (remainder - to_copy)))
              else append_loop env chunk
                     (AppendVersionChunk tbl (vc_start last_chunk + vc_count last_chunk))
                     txn offset remainder)
      else Some (tbl, txn))"

declare append_loop.simps [code]

definition update_all_statistics :: "'ix DataTable \<Rightarrow> DataChunk \<Rightarrow> 'ix DataTable" where
  "update_all_statistics tbl chunk =
     tbl\<lparr>statistics := map (\<lambda>i. Statistics_Update (statistics tbl ! i) (chunk_data chunk i))
                            [0..<length (tbl_types tbl)]\<rparr>"

text \<open>\<^verbatim>\<open>Append\<close> returns the table and the transaction as the call leaves them and the
  exception it throws, if any; \<open>None\<close> when the call does not return.\<close>

definition Append :: "Env \<Rightarrow> 'ix IndexOps \<Rightarrow> TableCatalogEntry \<Rightarrow> Transaction \<Rightarrow> 'ix DataTable \<Rightarrow> DataChunk \<Rightarrow> ('ix DataTable \<times> Transaction \<times> Exception option) option" where
  "Append env ops table txn tbl chunk =
     (if chunk_size chunk = 0 then Some (tbl, txn, None)
      else if column_count chunk \<noteq> length (table_columns table)
      then Some (tbl, txn, Some (CatalogException ''Mismatch in column count for append''))
      else if \<not> chunk_Verify env chunk
      then Some (tbl, txn, Some (InternalError ''chunk.Verify()''))
      else
        case VerifyAppendConstraints env table chunk of
          Some ex \<Rightarrow> Some (tbl, txn, Some ex)
        | None \<Rightarrow>
            if storage_tree tbl = [] then None
            else
              let last_chunk = last (storage_tree tbl);
                  row_start = int (vc_start last_chunk + vc_count last_chunk)
              in case AppendToIndexes env ops (indexes tbl) chunk row_start of
                   (ixs, Some ex) \<Rightarrow> Some (tbl\<lparr>indexes := ixs\<rparr>, txn, Some ex)
                 | (ixs, None) \<Rightarrow>
                     (case append_loop env chunk
                             (update_all_statistics (tbl\<lparr>indexes := ixs\<rparr>) chunk) txn 0
                             (chunk_size chunk) of
                        None \<Rightarrow> None
                      | Some (tbl', txn') \<Rightarrow> Some (tbl', txn', None)))"

subsection \<open>Delete (lines 240 to 276)\<close>

definition version_conflict :: "Env \<Rightarrow> Transaction \<Rightarrow> VersionChunk \<Rightarrow> nat \<Rightarrow> bool" where
  "version_conflict env txn chunk row =
     (case GetVersionInfo chunk row of
        None \<Rightarrow> False
      | Some version \<Rightarrow>
          version_number version \<ge> TRANSACTION_ID_START env \<and>
          version_number version \<noteq> transaction_id txn)"

definition first_id :: "Vector \<Rightarrow> int" where
  "first_id row_identifiers =
     vec_data row_identifiers (sel_index (vec_sel_vector row_identifiers) 0)"

text \<open>The lambda of lines 258 to 275, run by \<^verbatim>\<open>Exec\<close> on the pairs \<open>(i, k)\<close> in turn.
  \<^verbatim>\<open>ids[i] - chunk->start\<close> is unsigned: a negative difference wraps to a number no
  count reaches, and fails the assertion.\<close>

fun delete_loop :: "Env \<Rightarrow> nat \<Rightarrow> (nat \<Rightarrow> int) \<Rightarrow> (nat \<times> nat) list \<Rightarrow> 'ix DataTable \<Rightarrow> Transaction \<Rightarrow> 'ix DataTable \<times> Transaction \<times> Exception option" where
  "delete_loop env ci ids [] tbl txn = (tbl, txn, None)"
| "delete_loop env ci ids ((i, k) # rest) tbl txn =
     (let chunk = storage_tree tbl ! ci;
          id = ids i - int (vc_start chunk)
      in if \<not> (0 \<le> id \<and> id < int (vc_count chunk))
         then (tbl, txn, Some (InternalError ''assert(id < chunk->count)''))
         else if version_conflict env txn chunk (nat id)
         then (tbl, txn, Some (TransactionException ''Conflict on tuple deletion!''))
         else (case PushTuple env tbl ci txn DELETE_TUPLE (nat id) of
                 (tbl1, txn1) \<Rightarrow> delete_loop env ci ids rest (SetDeleted tbl1 ci (nat id)) txn1))"

definition Delete :: "Env \<Rightarrow> TableCatalogEntry \<Rightarrow> Transaction \<Rightarrow> 'ix DataTable \<Rightarrow> Vector \<Rightarrow> 'ix DataTable \<times> Transaction \<times> Exception option" where
  "Delete env table txn tbl row_identifiers =
     (if vec_type row_identifiers \<noteq> ROW_TYPE env
      then (tbl, txn, Some (InternalError ''assert(row_identifiers.type == ROW_TYPE)''))
      else if vec_count row_identifiers = 0 then (tbl, txn, None)
      else
        case GetChunk tbl (first_id row_identifiers) of
          None \<Rightarrow> (tbl, txn, Some no_chunk)
        | Some ci \<Rightarrow>
            delete_loop env ci (vec_data row_identifiers) (Exec_pairs row_identifiers) tbl txn)"

subsection \<open>Update (lines 392 to 475)\<close>

text \<open>The lambda of lines 424 to 436: the check of the whole batch for conflicts.\<close>

fun update_conflict_loop :: "Env \<Rightarrow> VersionChunk \<Rightarrow> Transaction \<Rightarrow> (nat \<Rightarrow> int) \<Rightarrow> (nat \<times> nat) list \<Rightarrow> Exception option" where
  "update_conflict_loop env chunk txn ids [] = None"
| "update_conflict_loop env chunk txn ids ((i, k) # rest) =
     (let id = ids i - int (vc_start chunk)
      in if \<not> (0 \<le> id \<and> id < int (vc_count chunk))
         then Some (InternalError ''assert(id < chunk->count)'')
         else if version_conflict env txn chunk (nat id)
         then Some (TransactionException ''Conflict on tuple update!'')
         else update_conflict_loop env chunk txn ids rest)"

text \<open>The lambda of lines 442 to 446.\<close>

fun update_push_loop :: "Env \<Rightarrow> nat \<Rightarrow> (nat \<Rightarrow> int) \<Rightarrow> (nat \<times> nat) list \<Rightarrow> 'ix DataTable \<Rightarrow> Transaction \<Rightarrow> 'ix DataTable \<times> Transaction" where
  "update_push_loop env ci ids [] tbl txn = (tbl, txn)"
| "update_push_loop env ci ids ((i, k) # rest) tbl txn =
     (let id = nat (ids i - int (vc_start (storage_tree tbl ! ci)))
      in case PushTuple env tbl ci txn UPDATE_TUPLE id of
           (tbl1, txn1) \<Rightarrow> update_push_loop env ci ids rest tbl1 txn1)"

text \<open>Lines 453 to 462 and 466: the value the \<open>k\<close>-th row receives.  A vector with a null
  is first copied to a vector without selection, its nulls as sentinels.\<close>

definition update_cell :: "Vector \<Rightarrow> nat \<Rightarrow> cell" where
  "update_cell v k =
     (if vec_nullmask v \<noteq> {} then vector_cell v k
      else Some (vec_data v (sel_index (vec_sel_vector v) k)))"

text \<open>The lambda of lines 464 to 468: the \<^verbatim>\<open>memcpy\<close> of one value to the position of its
  row.  A row with no position in the column has no defined behaviour in the source;
  here it is an \<open>InternalError\<close>.\<close>

fun update_write_loop :: "Env \<Rightarrow> nat \<Rightarrow> Vector \<Rightarrow> (nat \<Rightarrow> int) \<Rightarrow> (nat \<times> nat) list \<Rightarrow> 'ix DataTable \<Rightarrow> 'ix DataTable \<times> Exception option" where
  "update_write_loop env column_id update_vector ids [] tbl = (tbl, None)"
| "update_write_loop env column_id update_vector ids ((i, k) # rest) tbl =
     (case GetPointerToRow env tbl column_id (ids i) of
        None \<Rightarrow> (tbl, Some (InternalError ''GetPointerToRow''))
      | Some (si, pos) \<Rightarrow>
          let tree = columns tbl ! column_id;
              segment = tree ! si;
              segment' = segment\<lparr>seg_block := (seg_block segment)(pos := update_cell update_vector k)\<rparr>
          in update_write_loop env column_id update_vector ids rest
               (tbl\<lparr>columns := (columns tbl)[column_id := tree[si := segment']]\<rparr>))"

text \<open>The loop of lines 449 to 472 over the updated columns; \<open>col_idx\<close> is the position
  of the head of the list in \<^verbatim>\<open>column_ids\<close>.\<close>

fun update_columns_loop :: "Env \<Rightarrow> DataChunk \<Rightarrow> Vector \<Rightarrow> nat \<Rightarrow> nat list \<Rightarrow> 'ix DataTable \<Rightarrow> 'ix DataTable \<times> Exception option" where
  "update_columns_loop env updates row_identifiers col_idx [] tbl = (tbl, None)"
| "update_columns_loop env updates row_identifiers col_idx (column_id # rest) tbl =
     (case update_write_loop env column_id (chunk_data updates col_idx) (vec_data row_identifiers)
             (Exec_pairs row_identifiers) tbl of
        (tbl1, Some ex) \<Rightarrow> (tbl1, Some ex)
      | (tbl1, None) \<Rightarrow>
          update_columns_loop env updates row_identifiers (Suc col_idx) rest
            (tbl1\<lparr>statistics := (statistics tbl1)
               [column_id := Statistics_Update (statistics tbl1 ! column_id)
                               (chunk_data updates col_idx)]\<rparr>))"

definition Update :: "Env \<Rightarrow> 'ix IndexOps \<Rightarrow> TableCatalogEntry \<Rightarrow> Transaction \<Rightarrow> 'ix DataTable \<Rightarrow> Vector \<Rightarrow> nat list \<Rightarrow> DataChunk \<Rightarrow> 'ix DataTable \<times> Transaction \<times> Exception option" where
  "Update env ops table txn tbl row_identifiers column_ids updates =
     (if vec_type row_identifiers \<noteq> ROW_TYPE env
      then (tbl, txn, Some (InternalError ''assert(row_identifiers.type == ROW_TYPE)''))
      else if \<not> chunk_Verify env updates
      then (tbl, txn, Some (InternalError ''updates.Verify()''))
      else if vec_count row_identifiers = 0 then (tbl, txn, None)
      else
        case VerifyUpdateConstraints env table updates column_ids of
          Some ex \<Rightarrow> (tbl, txn, Some ex)
        | None \<Rightarrow>
            (case GetChunk tbl (first_id row_identifiers) of
               None \<Rightarrow> (tbl, txn, Some no_chunk)
             | Some ci \<Rightarrow>
                 (case update_conflict_loop env (storage_tree tbl ! ci) txn
                         (vec_data row_identifiers) (Exec_pairs row_identifiers) of
                    Some ex \<Rightarrow> (tbl, txn, Some ex)
                  | None \<Rightarrow>
                      (case UpdateIndexes ops (indexes tbl) table column_ids updates row_identifiers of
                         (ixs, Some ex) \<Rightarrow> (tbl\<lparr>indexes := ixs\<rparr>, txn, Some ex)
                       | (ixs, None) \<Rightarrow>
                           (case update_push_loop env ci (vec_data row_identifiers)
                                   (Exec_pairs row_identifiers) (tbl\<lparr>indexes := ixs\<rparr>) txn of
                              (tbl1, txn1) \<Rightarrow>
                                (case update_columns_loop env updates row_identifiers 0 column_ids tbl1 of
                                   (tbl2, result) \<Rightarrow> (tbl2, txn1, result)))))))"

subsection \<open>Scan (lines 480 to 519)\<close>

record TableScanState =
  sc_chunk :: "nat option"
  sc_last_chunk :: nat
  sc_last_chunk_count :: nat
  sc_columns :: "ColumnPointer list"
  sc_offset :: nat
  sc_version_chain :: "VersionInfo list"

definition InitializeScan :: "'ix DataTable \<Rightarrow> TableScanState" where
  "InitializeScan tbl =
     \<lparr>sc_chunk = (if storage_tree tbl = [] then None else Some 0),
      sc_last_chunk = length (storage_tree tbl) - 1,
      sc_last_chunk_count = vc_count (last (storage_tree tbl)),
      sc_columns = map (\<lambda>i. \<lparr>cp_segment = 0, cp_offset = 0\<rparr>) [0..<length (tbl_types tbl)],
      sc_offset = 0,
      sc_version_chain = []\<rparr>"

text \<open>Modelled from the spec: \<^verbatim>\<open>VersionChunk::Scan(state, txn, result, column_ids,
  sub_offset)\<close> is declared outside the sources.  It does "produce the next
  up-to-VECTOR-SIZE block of visible tuples from this chunk", the block number
  \<open>sub_offset\<close> of the rows of the chunk, up to the count captured at the start of the
  scan in the last chunk; "a row is visible to txn iff its head version-info is either
  null, or its version_number is a commit timestamp \<le> txn.start_time, or equals
  txn.transaction_id; otherwise walk the version chain to the first ancestor satisfying
  the rule.  A row with a visible deleted marker is skipped."  It answers whether the
  block was the last one of the chunk.\<close>

definition visible_version :: "Env \<Rightarrow> Transaction \<Rightarrow> VersionInfo \<Rightarrow> bool" where
  "visible_version env txn v =
     ((version_number v < TRANSACTION_ID_START env \<and> version_number v \<le> start_time txn)
      \<or> version_number v = transaction_id txn)"

definition visible_tuple :: "Env \<Rightarrow> 'ix DataTable \<Rightarrow> Transaction \<Rightarrow> VersionChunk \<Rightarrow> nat \<Rightarrow> cell list option" where
  "visible_tuple env tbl txn chunk row =
     (let base = (if row \<in> vc_deleted chunk then None
                  else Some (current_tuple env tbl (int (vc_start chunk + row))))
      in case vc_versions chunk row of
           [] \<Rightarrow> base
         | head # ancestors \<Rightarrow>
             if visible_version env txn head then base
             else (case find (visible_version env txn) ancestors of
                     None \<Rightarrow> None
                   | Some v \<Rightarrow> tuple_data v))"

definition tuples_to_chunk :: "'ix DataTable \<Rightarrow> nat list \<Rightarrow> cell list list \<Rightarrow> DataChunk" where
  "tuples_to_chunk tbl column_ids tuples =
     \<lparr>column_count = length column_ids,
      chunk_data = (\<lambda>j.
        \<lparr>vec_type = tbl_types tbl ! (column_ids ! j),
         vec_count = length tuples,
         vec_data = (\<lambda>k. case tuples ! k ! (column_ids ! j) of None \<Rightarrow> 0 | Some x \<Rightarrow> x),
         vec_nullmask = set (filter (\<lambda>k. tuples ! k ! (column_ids ! j) = None) [0..<length tuples]),
         vec_sel_vector = None\<rparr>),
      chunk_sel_vector = None\<rparr>"

definition VersionChunk_Scan :: "Env \<Rightarrow> 'ix DataTable \<Rightarrow> nat \<Rightarrow> TableScanState \<Rightarrow> Transaction \<Rightarrow> nat list \<Rightarrow> nat \<Rightarrow> bool \<times> DataChunk" where
  "VersionChunk_Scan env tbl ci state txn column_ids sub_offset =
     (let chunk = storage_tree tbl ! ci;
          end_row = (if ci = sc_last_chunk state then sc_last_chunk_count state else vc_count chunk);
          scan_start = sub_offset * STANDARD_VECTOR_SIZE env;
          scan_count = min (STANDARD_VECTOR_SIZE env) (end_row - scan_start);
          tuples = List.map_filter (visible_tuple env tbl txn chunk)
                     [scan_start..<scan_start + scan_count]
      in (end_row \<le> scan_start + STANDARD_VECTOR_SIZE env,
          tuples_to_chunk tbl column_ids tuples))"

text \<open>\<^verbatim>\<open>current_chunk->next.get()\<close>: the node after the chunk, null after the last
  one.\<close>

definition next_chunk :: "'ix DataTable \<Rightarrow> nat \<Rightarrow> nat option" where
  "next_chunk tbl ci = (if Suc ci < length (storage_tree tbl) then Some (Suc ci) else None)"

text \<open>One turn of the loop, lines 497 to 514, from a state whose chunk is
  \<open>current_chunk\<close>: whether the turn left the loop by \<^verbatim>\<open>break\<close>, the result and the
  state.\<close>

definition Scan_turn :: "Env \<Rightarrow> 'ix DataTable \<Rightarrow> Transaction \<Rightarrow> nat list \<Rightarrow> nat \<Rightarrow> TableScanState \<Rightarrow> bool \<times> DataChunk \<times> TableScanState" where
  "Scan_turn env tbl txn column_ids current_chunk state =
     (case VersionChunk_Scan env tbl current_chunk state txn column_ids (sc_offset state) of
        (is_last_segment, result) \<Rightarrow>
          if is_last_segment then
            (if sc_chunk state = Some (sc_last_chunk state)
             then (True, result, state\<lparr>sc_chunk := None\<rparr>)
             else (False, result, state\<lparr>sc_offset := 0, sc_chunk := next_chunk tbl current_chunk\<rparr>))
          else (False, result, state\<lparr>sc_offset := sc_offset state + 1\<rparr>))"

text \<open>The loop of lines 496 to 518.  \<open>None\<close>: the loop does not return.\<close>

partial_function (option) Scan :: "Env \<Rightarrow> 'ix DataTable \<Rightarrow> Transaction \<Rightarrow> DataChunk \<Rightarrow> nat list \<Rightarrow> TableScanState \<Rightarrow> (DataChunk \<times> TableScanState) option" where
  "Scan env tbl txn result column_ids state =
     (case sc_chunk state of
        None \<Rightarrow> Some (result, state)
      | Some current_chunk \<Rightarrow>
          (case Scan_turn env tbl txn column_ids current_chunk state of
             (left_by_break, result', state') \<Rightarrow>
               if left_by_break then Some (result', state')
               else if chunk_size result' > 0 then Some (result', state')
               else Scan env tbl txn result' column_ids state'))"

declare Scan.simps [code]

text \<open>The result and the state after \<open>n\<close> turns of the loop, whatever the results of the
  turns; a state that stands at no chunk stays as it is.\<close>

fun Scan_turns :: "Env \<Rightarrow> 'ix DataTable \<Rightarrow> Transaction \<Rightarrow> nat list \<Rightarrow> nat \<Rightarrow> DataChunk \<times> TableScanState \<Rightarrow> DataChunk \<times> TableScanState" where
  "Scan_turns env tbl txn column_ids 0 rs = rs"
| "Scan_turns env tbl txn column_ids (Suc n) (result, state) =
     (case sc_chunk state of
        None \<Rightarrow> (result, state)
      | Some current_chunk \<Rightarrow>
          Scan_turns env tbl txn column_ids n
            (snd (Scan_turn env tbl txn column_ids current_chunk state)))"

subsection \<open>The invariants of the data model\<close>

text \<open>The invariants of the column segments, in the words of the specification:
  "offset = count * sizeof(t); offset \<le> BLOCK_SIZE; adjacent segments within one column
  tree satisfy segment k.start + segment k.count = segment (k+1).start".\<close>

fun segments_adjacent :: "ColumnSegment list \<Rightarrow> bool" where
  "segments_adjacent (a # b # rest) =
     (seg_start a + seg_count a = seg_start b \<and> segments_adjacent (b # rest))"
| "segments_adjacent _ = True"

definition segments_ok :: "nat \<Rightarrow> nat \<Rightarrow> ColumnSegment list \<Rightarrow> bool" where
  "segments_ok block_size type_size tree =
     (list_all (\<lambda>s. seg_offset s = seg_count s * type_size \<and> seg_offset s \<le> block_size) tree
      \<and> segments_adjacent tree)"

text \<open>The invariants of the version chunks and of the table: every chunk starts where
  the one before it ends, the last chunk holds at most \<^verbatim>\<open>STORAGE_CHUNK_SIZE\<close> rows, there
  is one segment tree for each type, and each tree has a segment and satisfies the
  invariants of the segments.\<close>

fun chunks_adjacent :: "VersionChunk list \<Rightarrow> bool" where
  "chunks_adjacent (a # b # rest) =
     (vc_start a + vc_count a = vc_start b \<and> chunks_adjacent (b # rest))"
| "chunks_adjacent _ = True"

definition cols_ok :: "Env \<Rightarrow> 'ix DataTable \<Rightarrow> bool" where
  "cols_ok env tbl =
     (length (columns tbl) = length (tbl_types tbl) \<and>
      list_all (\<lambda>i. columns tbl ! i \<noteq> [] \<and>
                     0 < GetTypeIdSize env (tbl_types tbl ! i) \<and>
                     GetTypeIdSize env (tbl_types tbl ! i) \<le> BLOCK_SIZE env \<and>
                     segments_ok (BLOCK_SIZE env) (GetTypeIdSize env (tbl_types tbl ! i))
                       (columns tbl ! i))
        [0..<length (tbl_types tbl)])"

definition table_ok :: "Env \<Rightarrow> 'ix DataTable \<Rightarrow> bool" where
  "table_ok env tbl =
     (0 < STORAGE_CHUNK_SIZE env \<and> storage_tree tbl \<noteq> [] \<and>
      vc_count (last (storage_tree tbl)) \<le> STORAGE_CHUNK_SIZE env \<and> cols_ok env tbl)"

text \<open>The row identifier an undo record stands for.\<close>

definition undo_row_id :: "UndoEntry \<Rightarrow> nat" where
  "undo_row_id e = undo_chunk_start e + undo_row e"

text \<open>A scan state of a table: the last chunk it captured is a chunk of the table, and
  the chunk it stands at, if any, is not after that one.\<close>

definition scan_ok :: "'ix DataTable \<Rightarrow> TableScanState \<Rightarrow> bool" where
  "scan_ok tbl state =
     (sc_last_chunk state < length (storage_tree tbl) \<and>
      (case sc_chunk state of None \<Rightarrow> True | Some c \<Rightarrow> c \<le> sc_last_chunk state))"

text \<open>The number of rows a scan reads from the chunk at position \<open>c\<close>: the count
  captured at the start of the scan for the last chunk, the count of the chunk
  otherwise.\<close>

definition end_row_of :: "'ix DataTable \<Rightarrow> TableScanState \<Rightarrow> nat \<Rightarrow> nat" where
  "end_row_of tbl state c =
     (if c = sc_last_chunk state then sc_last_chunk_count state
      else vc_count (storage_tree tbl ! c))"

text \<open>The tail segment once \<^verbatim>\<open>AppendVector\<close> has copied \<open>n\<close> values to it (lines 66 to
  69).\<close>

definition appended_tail :: "nat \<Rightarrow> ColumnSegment \<Rightarrow> Vector \<Rightarrow> nat \<Rightarrow> nat \<Rightarrow> ColumnSegment" where
  "appended_tail type_size seg data offset n =
     seg\<lparr>seg_block := CopyToStorage data (seg_block seg) (seg_offset seg) type_size offset n,
         seg_count := seg_count seg + n,
         seg_offset := seg_offset seg + n * type_size\<rparr>"

subsection \<open>Concrete inputs\<close>

text \<open>Small constants, so that a block holds two integers and a version chunk two rows;
  an index that records the calls it receives; vectors and chunks from lists.\<close>

definition sample_env :: Env where
  "sample_env =
     \<lparr>BLOCK_SIZE = 8, STORAGE_CHUNK_SIZE = 2, STANDARD_VECTOR_SIZE = 2,
      TRANSACTION_ID_START = 1000, ROW_TYPE = BIGINT,
      GetTypeIdSize = (\<lambda>t. if t = BIGINT then 8 else 4), chunk_Verify = (\<lambda>_. True),
      NDEBUG = False\<rparr>"

record SampleIndex =
  accepts :: bool
  touched :: bool
  calls :: "string list"

definition sample_ops :: "SampleIndex IndexOps" where
  "sample_ops =
     \<lparr>index_Append = (\<lambda>ix chunk r. (accepts ix, ix\<lparr>calls := calls ix @ [''Append'']\<rparr>)),
      index_Delete = (\<lambda>ix chunk r. ix\<lparr>calls := calls ix @ [''Delete'']\<rparr>),
      IndexIsUpdated = (\<lambda>ix column_ids. touched ix)\<rparr>"

definition sample_index :: "bool \<Rightarrow> bool \<Rightarrow> SampleIndex" where
  "sample_index a t = \<lparr>accepts = a, touched = t, calls = []\<rparr>"

definition list_vector :: "TypeId \<Rightarrow> int list \<Rightarrow> nat set \<Rightarrow> Vector" where
  "list_vector t xs nulls =
     \<lparr>vec_type = t, vec_count = length xs, vec_data = (\<lambda>i. if i < length xs then xs ! i else 0),
      vec_nullmask = nulls, vec_sel_vector = None\<rparr>"

definition column_chunk :: "nat \<Rightarrow> Vector \<Rightarrow> DataChunk" where
  "column_chunk n v = \<lparr>column_count = n, chunk_data = (\<lambda>_. v), chunk_sel_vector = None\<rparr>"

definition sample_table :: "BoundConstraint list \<Rightarrow> TableCatalogEntry" where
  "sample_table cs =
     \<lparr>table_name = ''t'', table_columns = [\<lparr>col_name = ''a'', col_type = INTEGER\<rparr>],
      bound_constraints = cs\<rparr>"

definition sample_txn :: "nat \<Rightarrow> Transaction" where
  "sample_txn n = \<lparr>transaction_id = 1000 + n, start_time = 5, undo_buffer = []\<rparr>"

text \<open>A table of one integer column that holds two rows, 10 and 20, in one version
  chunk: row 0 was committed at time 3, row 1 was appended by the transaction 1001,
  which is still running.\<close>

definition sample_storage :: "SampleIndex DataTable" where
  "sample_storage =
     \<lparr>cardinality = 1, tbl_types = [INTEGER],
      columns = [[\<lparr>seg_start = 0, seg_count = 2, seg_offset = 8,
                   seg_block = (\<lambda>_. None)(0 := Some 10, 4 := Some 20)\<rparr>]],
      storage_tree =
        [\<lparr>vc_start = 0, vc_count = 2, vc_columns = [\<lparr>cp_segment = 0, cp_offset = 0\<rparr>],
          vc_versions = (\<lambda>_. [])(0 := [\<lparr>version_number = 3, tuple_data = None\<rparr>],
                                   1 := [\<lparr>version_number = 1001, tuple_data = None\<rparr>]),
          vc_deleted = {}\<rparr>],
      statistics = [\<lparr>stat_has_null = False, stat_min = Some 10, stat_max = Some 20\<rparr>],
      indexes = []\<rparr>"

text \<open>The empty table of one integer column after the transaction 1001 has appended the
  rows 5, 6 and 7: two version chunks, of two rows and of one row.\<close>

definition sample_appended :: "SampleIndex DataTable" where
  "sample_appended =
     fst (the (Append sample_env sample_ops (sample_table []) (sample_txn 1)
                 (DataTable_new [INTEGER]) (column_chunk 1 (list_vector INTEGER [5, 6, 7] {}))))"

section \<open>Properties\<close>

subsection \<open>Unfolding the concrete inputs\<close>

lemmas sample_simps = sample_env_def sample_ops_def sample_table_def sample_txn_def
  sample_storage_def list_vector_def column_chunk_def sample_index_def

lemmas eval_simps = GetChunk_def first_id_def sel_index_def Exec_pairs_def upt_rec
  version_conflict_def GetVersionInfo_def PushTuple_def SetDeleted_def current_tuple_def
  read_cell_def GetPointerToRow_def update_cell_def Statistics_Update_def HasNull_def
  vector_values_def Let_def

subsection \<open>CHECK constraints\<close>

text \<open>Claim C6.  The verification of a CHECK constraint evaluates the bound expression
  into a vector.  It throws a \<open>ConstraintException\<close> exactly when the evaluator throws
  or some entry of the result is not null and is zero; it returns without an exception
  exactly when the evaluator returns and every entry that is not null is not zero (so it
  throws no other exception); and the message of an exception of the evaluator stands
  inside the message of the \<open>ConstraintException\<close>.\<close>

theorem check_constraint_raises_iff:
  "((\<exists>msg. VerifyCheckConstraint table expr chunk = Some (ConstraintException msg)) \<longleftrightarrow>
      (expr chunk = ThrowsUnknown \<or> (\<exists>what. expr chunk = Throws what) \<or>
       (\<exists>result i. expr chunk = Returns result \<and> i < vec_count result \<and>
          sel_index (vec_sel_vector result) i \<notin> vec_nullmask result \<and>
          vec_data result (sel_index (vec_sel_vector result) i) = 0)))
   \<and> ((VerifyCheckConstraint table expr chunk = None) \<longleftrightarrow>
      (\<exists>result. expr chunk = Returns result \<and>
         (\<forall>i<vec_count result. sel_index (vec_sel_vector result) i \<notin> vec_nullmask result \<longrightarrow>
            vec_data result (sel_index (vec_sel_vector result) i) \<noteq> 0)))
   \<and> (\<forall>what. expr chunk = Throws what \<longrightarrow>
        VerifyCheckConstraint table expr chunk
          = Some (ConstraintException
              (''CHECK constraint failed: '' @ table_name table @ '' (Error: '' @ what @ '')'')))"
proof (cases "expr chunk")
  case (Returns result)
  have ex: "list_ex (check_entry_fails result) [0..<vec_count result] \<longleftrightarrow>
     (\<exists>i. i < vec_count result \<and>
          sel_index (vec_sel_vector result) i \<notin> vec_nullmask result \<and>
          vec_data result (sel_index (vec_sel_vector result) i) = 0)"
    by (auto simp: list_ex_iff check_entry_fails_def Let_def)
  show ?thesis
    using Returns ex by (auto simp: VerifyCheckConstraint_def)
next
  case (Throws what)
  then show ?thesis by (auto simp: VerifyCheckConstraint_def)
next
  case ThrowsUnknown
  then show ?thesis by (auto simp: VerifyCheckConstraint_def)
qed

theorem check_constraint_witness:
  "VerifyCheckConstraint (sample_table []) (\<lambda>c. Throws ''division by zero'')
       (column_chunk 1 (list_vector INTEGER [1] {}))
     = Some (ConstraintException ''CHECK constraint failed: t (Error: division by zero)'')
   \<and> VerifyCheckConstraint (sample_table []) (\<lambda>c. Returns (chunk_data c 0))
       (column_chunk 1 (list_vector INTEGER [3, 0, 0] {1})) 
     = Some (ConstraintException ''CHECK constraint failed: t'')
   \<and> VerifyCheckConstraint (sample_table []) (\<lambda>c. Returns (chunk_data c 0))
       (column_chunk 1 (list_vector INTEGER [3, 0, 7] {1})) = None"
  using check_constraint_raises_iff [where table = "sample_table []"
          and expr = "\<lambda>c. Throws ''division by zero''"
          and chunk = "column_chunk 1 (list_vector INTEGER [1] {})"]
  by (simp add: VerifyCheckConstraint_def sample_table_def column_chunk_def list_vector_def
        check_entry_fails_def sel_index_def)

subsection \<open>UNIQUE constraints\<close>

lemma unique_keys_loop_cases:
  "unique_keys_loop keys chunk =
     (if \<forall>key \<in> set keys. distinct (vector_values (chunk_data chunk key)) then None
      else Some (ConstraintException
             ''duplicate key value violates primary key or unique constraint''))"
  by (induction keys) (simp_all add: Unique_def)

text \<open>Claim C7 says that a UNIQUE constraint with more than one key column is rejected
  as unsupported, with a \<open>NotImplementedException\<close>, and that with one key column a
  \<open>ConstraintException\<close> is thrown exactly when the column has duplicates in the chunk.
  The second half holds.  The first does not hold of the code, which announces
  \<^verbatim>\<open>// not implemented for multiple keys\<close> and then only asserts \<^verbatim>\<open>keys.size() == 1\<close>:
  \<^item> no set of keys makes \<^verbatim>\<open>VerifyUniqueConstraint\<close> throw a \<open>NotImplementedException\<close>;
  \<^item> with assertions compiled in, a set of keys that does not have one element fails
    the assertion;
  \<^item> with assertions compiled out, every key column is checked on its own: the
    constraint is accepted when each key column is free of duplicates, whatever the
    number of keys, and a \<open>ConstraintException\<close> is thrown otherwise;
  \<^item> with one key, in both builds, the \<open>ConstraintException\<close> is thrown exactly when
    the values of the column are not distinct.\<close>

theorem unique_many_keys_not_rejected:
  "VerifyUniqueConstraint env table keys chunk \<noteq> Some (NotImplementedException msg)
   \<and> (\<not> NDEBUG env \<and> length keys \<noteq> 1 \<longrightarrow>
        VerifyUniqueConstraint env table keys chunk
          = Some (InternalError ''assert(keys.size() == 1)''))
   \<and> (NDEBUG env \<longrightarrow>
        VerifyUniqueConstraint env table keys chunk =
          (if \<forall>key \<in> set keys. distinct (vector_values (chunk_data chunk key)) then None
           else Some (ConstraintException
                  ''duplicate key value violates primary key or unique constraint'')))
   \<and> VerifyUniqueConstraint env table [key] chunk =
        (if distinct (vector_values (chunk_data chunk key)) then None
         else Some (ConstraintException
                ''duplicate key value violates primary key or unique constraint''))"
  by (simp add: VerifyUniqueConstraint_def unique_keys_loop_cases)

theorem unique_many_keys_witness:
  "\<not> NDEBUG sample_env \<and> length [0::nat, 1] \<noteq> 1
   \<and> VerifyUniqueConstraint sample_env (sample_table [UNIQUE [0, 1]]) [0, 1]
        (column_chunk 2 (list_vector INTEGER [1, 2] {}))
      = Some (InternalError ''assert(keys.size() == 1)'')
   \<and> NDEBUG (sample_env\<lparr>NDEBUG := True\<rparr>)
   \<and> VerifyUniqueConstraint (sample_env\<lparr>NDEBUG := True\<rparr>) (sample_table [UNIQUE [0, 1]]) [0, 1]
        (column_chunk 2 (list_vector INTEGER [1, 2] {})) = None
   \<and> VerifyUniqueConstraint (sample_env\<lparr>NDEBUG := True\<rparr>) (sample_table [UNIQUE [0, 1]]) [0, 1]
        (column_chunk 2 (list_vector INTEGER [4, 5, 4] {}))
      = Some (ConstraintException ''duplicate key value violates primary key or unique constraint'')
   \<and> VerifyUniqueConstraint sample_env (sample_table [UNIQUE [0]]) [0]
        (column_chunk 1 (list_vector INTEGER [4, 5, 4] {}))
      = Some (ConstraintException ''duplicate key value violates primary key or unique constraint'')
   \<and> VerifyUniqueConstraint sample_env (sample_table [UNIQUE [0]]) [0]
        (column_chunk 1 (list_vector INTEGER [4, 5, 6] {})) = None"
proof -
  let ?D = "sample_env" and ?N = "sample_env\<lparr>NDEBUG := True\<rparr>"
  let ?A = "column_chunk 2 (list_vector INTEGER [1, 2] {})"
  let ?B = "column_chunk 2 (list_vector INTEGER [4, 5, 4] {})"
  let ?msg = "''duplicate key value violates primary key or unique constraint''"
  have v: "vector_values (list_vector INTEGER [1, 2] {}) = [1, 2]"
    "vector_values (list_vector INTEGER [4, 5, 4] {}) = [4, 5, 4]"
    "vector_values (list_vector INTEGER [4, 5, 6] {}) = [4, 5, 6]"
    by (simp_all add: vector_values_def Exec_pairs_def list_vector_def sel_index_def upt_rec)
  have n: "\<not> NDEBUG ?D \<and> length [0::nat, 1] \<noteq> 1" "NDEBUG ?N"
    by (simp_all add: sample_env_def)
  have da: "\<forall>key \<in> set [0::nat, 1]. distinct (vector_values (chunk_data ?A key))"
    by (simp add: v column_chunk_def)
  have db: "\<not> (\<forall>key \<in> set [0::nat, 1]. distinct (vector_values (chunk_data ?B key)))"
    by (auto simp: v column_chunk_def)
  have a: "VerifyUniqueConstraint ?D (sample_table [UNIQUE [0, 1]]) [0, 1] ?A
      = Some (InternalError ''assert(keys.size() == 1)'')"
    using n(1) unique_many_keys_not_rejected [where env = ?D
          and table = "sample_table [UNIQUE [0, 1]]" and keys = "[0, 1]" and chunk = ?A]
    by blast
  have "VerifyUniqueConstraint ?N (sample_table [UNIQUE [0, 1]]) [0, 1] ?A
      = (if \<forall>key \<in> set [0::nat, 1]. distinct (vector_values (chunk_data ?A key)) then None
         else Some (ConstraintException ?msg))"
    using n(2) unique_many_keys_not_rejected [where env = ?N
          and table = "sample_table [UNIQUE [0, 1]]" and keys = "[0, 1]" and chunk = ?A]
    by blast
  then have b: "VerifyUniqueConstraint ?N (sample_table [UNIQUE [0, 1]]) [0, 1] ?A = None"
    by (simp only: if_P[OF da])
  have "VerifyUniqueConstraint ?N (sample_table [UNIQUE [0, 1]]) [0, 1] ?B
      = (if \<forall>key \<in> set [0::nat, 1]. distinct (vector_values (chunk_data ?B key)) then None
         else Some (ConstraintException ?msg))"
    using n(2) unique_many_keys_not_rejected [where env = ?N
          and table = "sample_table [UNIQUE [0, 1]]" and keys = "[0, 1]" and chunk = ?B]
    by blast
  then have c: "VerifyUniqueConstraint ?N (sample_table [UNIQUE [0, 1]]) [0, 1] ?B
      = Some (ConstraintException ?msg)"
    by (simp only: if_not_P[OF db])
  have d: "VerifyUniqueConstraint ?D (sample_table [UNIQUE [0]]) [0]
        (column_chunk 1 (list_vector INTEGER [4, 5, 4] {})) = Some (ConstraintException ?msg)"
    using unique_many_keys_not_rejected [where env = ?D
          and table = "sample_table [UNIQUE [0]]" and key = 0
          and chunk = "column_chunk 1 (list_vector INTEGER [4, 5, 4] {})"]
    by (simp add: v column_chunk_def)
  have e: "VerifyUniqueConstraint ?D (sample_table [UNIQUE [0]]) [0]
        (column_chunk 1 (list_vector INTEGER [4, 5, 6] {})) = None"
    using unique_many_keys_not_rejected [where env = ?D
          and table = "sample_table [UNIQUE [0]]" and key = 0
          and chunk = "column_chunk 1 (list_vector INTEGER [4, 5, 6] {})"]
    by (simp add: v column_chunk_def)
  show ?thesis
    using n a b c d e by blast
qed

subsection \<open>FOREIGN KEY constraints\<close>

lemma verify_append_loop_None:
  "verify_append_loop env table chunk cs = None
     \<longleftrightarrow> (\<forall>c \<in> set cs. verify_append_constraint env table chunk c = None)"
  by (induction cs) (auto split: option.splits)

lemma verify_append_loop_split:
  "(\<forall>p \<in> set pre. verify_append_constraint env table chunk p = None) \<Longrightarrow>
   verify_append_constraint env table chunk c = Some ex \<Longrightarrow>
   verify_append_loop env table chunk (pre @ c # post) = Some ex"
  by (induction pre) auto

lemma verify_append_loop_Some:
  "verify_append_loop env table chunk cs = Some ex \<Longrightarrow>
   \<exists>pre c post. cs = pre @ c # post
     \<and> (\<forall>p \<in> set pre. verify_append_constraint env table chunk p = None)
     \<and> verify_append_constraint env table chunk c = Some ex"
proof (induction cs)
  case Nil
  then show ?case by simp
next
  case (Cons d cs)
  show ?case
  proof (cases "verify_append_constraint env table chunk d")
    case None
    then have "verify_append_loop env table chunk cs = Some ex" using Cons.prems by simp
    then obtain pre c post where r: "cs = pre @ c # post"
        "\<forall>p \<in> set pre. verify_append_constraint env table chunk p = None"
        "verify_append_constraint env table chunk c = Some ex"
      using Cons.IH by blast
    have "d # cs = (d # pre) @ c # post
        \<and> (\<forall>p \<in> set (d # pre). verify_append_constraint env table chunk p = None)
        \<and> verify_append_constraint env table chunk c = Some ex"
      using r None by simp
    then show ?thesis by blast
  next
    case (Some e)
    then have "d # cs = [] @ d # cs
        \<and> (\<forall>p \<in> set []. verify_append_constraint env table chunk p = None)
        \<and> verify_append_constraint env table chunk d = Some ex"
      using Cons.prems by simp
    then show ?thesis by blast
  qed
qed

text \<open>On a list of constraints with a FOREIGN KEY constraint the verification throws at
  the first constraint that is violated or is a FOREIGN KEY constraint.\<close>

lemma verify_append_loop_foreign_key:
  assumes "FOREIGN_KEY \<in> set cs"
  shows "\<exists>pre c post ex. cs = pre @ c # post
     \<and> FOREIGN_KEY \<notin> set pre
     \<and> (\<forall>p \<in> set pre. verify_append_constraint env table chunk p = None)
     \<and> verify_append_constraint env table chunk c = Some ex
     \<and> (c = FOREIGN_KEY \<longrightarrow> ex = not_implemented)
     \<and> verify_append_loop env table chunk cs = Some ex"
proof -
  obtain pre0 post0 where s: "cs = pre0 @ FOREIGN_KEY # post0" "FOREIGN_KEY \<notin> set pre0"
    using assms split_list_first by fastforce
  have fk: "verify_append_constraint env table chunk FOREIGN_KEY = Some not_implemented"
    by (simp add: verify_append_constraint_def)
  show ?thesis
  proof (cases "verify_append_loop env table chunk pre0")
    case None
    then have pass: "\<forall>p \<in> set pre0. verify_append_constraint env table chunk p = None"
      by (simp add: verify_append_loop_None)
    then have "verify_append_loop env table chunk cs = Some not_implemented"
      using fk s(1) verify_append_loop_split by blast
    then show ?thesis using s pass fk by blast
  next
    case (Some ex)
    then obtain pre c post where r: "pre0 = pre @ c # post"
        "\<forall>p \<in> set pre. verify_append_constraint env table chunk p = None"
        "verify_append_constraint env table chunk c = Some ex"
      using verify_append_loop_Some by blast
    have c: "c \<noteq> FOREIGN_KEY" and pre: "FOREIGN_KEY \<notin> set pre"
      using s(2) r(1) by auto
    have "cs = pre @ c # (post @ FOREIGN_KEY # post0)" using s(1) r(1) by simp
    moreover from this have "verify_append_loop env table chunk cs = Some ex"
      using r(2,3) verify_append_loop_split by blast
    ultimately show ?thesis using r(2,3) c pre by blast
  qed
qed

lemma verify_update_constraint_table:
  "verify_update_constraint env (table\<lparr>bound_constraints := cs\<rparr>) chunk column_ids c
     = verify_update_constraint env table chunk column_ids c"
proof -
  have nn: "\<And>index i ids. not_null_update_loop (table\<lparr>bound_constraints := cs\<rparr>) chunk index i ids
     = not_null_update_loop table chunk index i ids"
  proof -
    fix index i ids
    show "not_null_update_loop (table\<lparr>bound_constraints := cs\<rparr>) chunk index i ids
     = not_null_update_loop table chunk index i ids"
      by (induction ids arbitrary: i) (auto simp: VerifyNotNullConstraint_def)
  qed
  have chk: "\<And>e m. VerifyCheckConstraint (table\<lparr>bound_constraints := cs\<rparr>) e m
     = VerifyCheckConstraint table e m"
    by (simp add: VerifyCheckConstraint_def split: ExecResult.splits)
  have mock: "\<And>d. CreateMockChunk_desired (table\<lparr>bound_constraints := cs\<rparr>) column_ids d chunk
     = CreateMockChunk_desired table column_ids d chunk"
    by (simp add: CreateMockChunk_desired_def CreateMockChunk_def GetTypes_def)
  show ?thesis
    by (cases c)
       (simp_all add: verify_update_constraint_def nn chk mock VerifyUniqueConstraint_def
          cong: sum.case_cong option.case_cong)
qed

lemma verify_update_loop_skips_foreign_key:
  "verify_update_loop env (table\<lparr>bound_constraints := cs'\<rparr>) chunk column_ids
       (filter (\<lambda>c. c \<noteq> FOREIGN_KEY) cs)
     = verify_update_loop env table chunk column_ids cs"
proof (induction cs)
  case Nil
  show ?case by simp
next
  case (Cons c cs)
  show ?case
  proof (cases "c = FOREIGN_KEY")
    case True
    then show ?thesis using Cons by (simp add: verify_update_constraint_def)
  next
    case False
    then show ?thesis using Cons
      by (simp add: verify_update_constraint_table split: option.splits)
  qed
qed

lemma UpdateIndexes_table:
  "UpdateIndexes ops ixs (table\<lparr>bound_constraints := cs\<rparr>) column_ids updates rid
     = UpdateIndexes ops ixs table column_ids updates rid"
  by (simp add: UpdateIndexes_def CreateMockChunk_def GetTypes_def)

text \<open>The claim C8 says that every append of rows to a table with a FOREIGN KEY
  constraint throws a \<open>NotImplementedException\<close>.  The constraints are verified in their
  order: a NOT NULL constraint before the FOREIGN KEY constraint throws first.\<close>

theorem foreign_key_counterexample:
  "Append sample_env sample_ops (sample_table [NOT_NULL 0, FOREIGN_KEY]) (sample_txn 1)
       (DataTable_new [INTEGER]) (column_chunk 1 (list_vector INTEGER [7, 0] {1}))
     = Some (DataTable_new [INTEGER], sample_txn 1,
             Some (ConstraintException ''NOT NULL constraint failed: t.a''))"
  by (simp add: Append_def chunk_size_def column_chunk_def list_vector_def sample_table_def
        sample_env_def VerifyAppendConstraints_def verify_append_constraint_def
        VerifyNotNullConstraint_def HasNull_def Exec_pairs_def sel_index_def upt_rec)

text \<open>Claim C8, amended.  On a table with a bound FOREIGN KEY constraint, an append of a
  chunk that is not empty, has the column count of the catalog and passes its
  self-check (\<^verbatim>\<open>chunk.Verify()\<close>) always throws during the verification of the
  constraints, and leaves the table and the transaction as they were.  The exception
  is that of the first constraint, in the order of the catalog, that is violated or is
  a FOREIGN KEY constraint: every constraint before it is no FOREIGN KEY constraint
  and holds of the chunk, and the exception is the \<open>NotImplementedException\<close> when it is
  the FOREIGN KEY constraint.  What a single constraint throws is
  \<^item> for NOT NULL, a \<open>ConstraintException\<close> exactly when the column has a null;
  \<^item> for CHECK and UNIQUE, what \<^verbatim>\<open>VerifyCheckConstraint\<close> and
    \<^verbatim>\<open>VerifyUniqueConstraint\<close> throw;
  \<^item> for FOREIGN KEY, always the \<open>NotImplementedException\<close>.

  An update ignores FOREIGN KEY constraints: it does what it does on the table without
  them.\<close>

theorem foreign_key_append_update:
  "(FOREIGN_KEY \<in> set (bound_constraints table) \<and> chunk_size chunk \<noteq> 0
      \<and> column_count chunk = length (table_columns table) \<and> chunk_Verify env chunk \<longrightarrow>
      (\<exists>pre c post ex.
          bound_constraints table = pre @ c # post
        \<and> FOREIGN_KEY \<notin> set pre
        \<and> (\<forall>p \<in> set pre. verify_append_constraint env table chunk p = None)
        \<and> verify_append_constraint env table chunk c = Some ex
        \<and> (c = FOREIGN_KEY \<longrightarrow> ex = NotImplementedException ''Constraint type not implemented!'')
        \<and> Append env ops table txn tbl chunk = Some (tbl, txn, Some ex)))
   \<and> verify_append_constraint env table chunk (NOT_NULL index) =
       (if HasNull (chunk_data chunk index)
        then Some (ConstraintException
               (''NOT NULL constraint failed: '' @ table_name table @ ''.''
                  @ col_name (table_columns table ! index)))
        else None)
   \<and> verify_append_constraint env table chunk (CHECK expression bound_columns)
       = VerifyCheckConstraint table expression chunk
   \<and> verify_append_constraint env table chunk (UNIQUE keys)
       = VerifyUniqueConstraint env table keys chunk
   \<and> verify_append_constraint env table chunk FOREIGN_KEY
       = Some (NotImplementedException ''Constraint type not implemented!'')
   \<and> Update env ops table txn tbl row_identifiers column_ids updates
       = Update env ops
           (table\<lparr>bound_constraints := filter (\<lambda>c. c \<noteq> FOREIGN_KEY) (bound_constraints table)\<rparr>)
           txn tbl row_identifiers column_ids updates"
proof -
  have app: "\<exists>pre c post ex.
          bound_constraints table = pre @ c # post
        \<and> FOREIGN_KEY \<notin> set pre
        \<and> (\<forall>p \<in> set pre. verify_append_constraint env table chunk p = None)
        \<and> verify_append_constraint env table chunk c = Some ex
        \<and> (c = FOREIGN_KEY \<longrightarrow> ex = NotImplementedException ''Constraint type not implemented!'')
        \<and> Append env ops table txn tbl chunk = Some (tbl, txn, Some ex)"
    if a: "FOREIGN_KEY \<in> set (bound_constraints table) \<and> chunk_size chunk \<noteq> 0
      \<and> column_count chunk = length (table_columns table) \<and> chunk_Verify env chunk"
  proof -
    obtain pre c post ex where r: "bound_constraints table = pre @ c # post"
        "FOREIGN_KEY \<notin> set pre"
        "\<forall>p \<in> set pre. verify_append_constraint env table chunk p = None"
        "verify_append_constraint env table chunk c = Some ex"
        "c = FOREIGN_KEY \<longrightarrow> ex = not_implemented"
        "verify_append_loop env table chunk (bound_constraints table) = Some ex"
      using verify_append_loop_foreign_key[of "bound_constraints table" env table chunk] a
      by blast
    have "Append env ops table txn tbl chunk = Some (tbl, txn, Some ex)"
      using a r(6) by (simp add: Append_def VerifyAppendConstraints_def)
    then show ?thesis using r(1-5) unfolding not_implemented_def by blast
  qed
  have single: "verify_append_constraint env table chunk (NOT_NULL index) =
       (if HasNull (chunk_data chunk index)
        then Some (ConstraintException
               (''NOT NULL constraint failed: '' @ table_name table @ ''.''
                  @ col_name (table_columns table ! index)))
        else None)"
    "verify_append_constraint env table chunk (CHECK expression bound_columns)
       = VerifyCheckConstraint table expression chunk"
    "verify_append_constraint env table chunk (UNIQUE keys)
       = VerifyUniqueConstraint env table keys chunk"
    "verify_append_constraint env table chunk FOREIGN_KEY
       = Some (NotImplementedException ''Constraint type not implemented!'')"
    by (simp_all add: verify_append_constraint_def VerifyNotNullConstraint_def
          not_implemented_def)
  have "VerifyUpdateConstraints env
          (table\<lparr>bound_constraints := filter (\<lambda>c. c \<noteq> FOREIGN_KEY) (bound_constraints table)\<rparr>)
          updates column_ids
        = VerifyUpdateConstraints env table updates column_ids"
    by (simp add: VerifyUpdateConstraints_def verify_update_loop_skips_foreign_key)
  then have upd: "Update env ops table txn tbl row_identifiers column_ids updates
       = Update env ops
           (table\<lparr>bound_constraints := filter (\<lambda>c. c \<noteq> FOREIGN_KEY) (bound_constraints table)\<rparr>)
           txn tbl row_identifiers column_ids updates"
    by (simp add: Update_def UpdateIndexes_table cong: option.case_cong)
  show ?thesis using app single upd by blast
qed

theorem foreign_key_witness:
  "FOREIGN_KEY \<in> set (bound_constraints (sample_table [NOT_NULL 0, FOREIGN_KEY]))
   \<and> chunk_size (column_chunk 1 (list_vector INTEGER [7, 8] {})) \<noteq> 0
   \<and> column_count (column_chunk 1 (list_vector INTEGER [7, 8] {}))
       = length (table_columns (sample_table [NOT_NULL 0, FOREIGN_KEY]))
   \<and> chunk_Verify sample_env (column_chunk 1 (list_vector INTEGER [7, 8] {}))
   \<and> Append sample_env sample_ops (sample_table [NOT_NULL 0, FOREIGN_KEY]) (sample_txn 1)
        (DataTable_new [INTEGER]) (column_chunk 1 (list_vector INTEGER [7, 8] {}))
      = Some (DataTable_new [INTEGER], sample_txn 1,
              Some (NotImplementedException ''Constraint type not implemented!''))
   \<and> Append sample_env sample_ops (sample_table [NOT_NULL 0, FOREIGN_KEY]) (sample_txn 1)
        (DataTable_new [INTEGER]) (column_chunk 1 (list_vector INTEGER [7, 0] {1}))
      = Some (DataTable_new [INTEGER], sample_txn 1,
              Some (ConstraintException ''NOT NULL constraint failed: t.a''))"
proof -
  let ?T = "sample_table [NOT_NULL 0, FOREIGN_KEY]"
  let ?A = "column_chunk 1 (list_vector INTEGER [7, 8] {})"
  let ?B = "column_chunk 1 (list_vector INTEGER [7, 0] {1})"
  have cs: "bound_constraints ?T = [NOT_NULL 0, FOREIGN_KEY]"
    by (simp add: sample_table_def)
  have h: "FOREIGN_KEY \<in> set (bound_constraints ?T)
   \<and> chunk_size ?A \<noteq> 0 \<and> column_count ?A = length (table_columns ?T)
   \<and> chunk_Verify sample_env ?A"
    "FOREIGN_KEY \<in> set (bound_constraints ?T)
   \<and> chunk_size ?B \<noteq> 0 \<and> column_count ?B = length (table_columns ?T)
   \<and> chunk_Verify sample_env ?B"
    by (simp_all add: sample_table_def chunk_size_def column_chunk_def list_vector_def
          sample_env_def)
  have nulls: "\<not> HasNull (chunk_data ?A 0)" "HasNull (chunk_data ?B 0)"
    by (simp_all add: HasNull_def Exec_pairs_def column_chunk_def list_vector_def
          sel_index_def upt_rec)
  have name: "''NOT NULL constraint failed: '' @ table_name ?T @ ''.''
                  @ col_name (table_columns ?T ! 0) = ''NOT NULL constraint failed: t.a''"
    by (simp add: sample_table_def)
  note a = foreign_key_append_update [where table = ?T and chunk = ?A and env = sample_env
        and ops = sample_ops and txn = "sample_txn 1" and tbl = "DataTable_new [INTEGER]"
        and index = 0]
  note b = foreign_key_append_update [where table = ?T and chunk = ?B and env = sample_env
        and ops = sample_ops and txn = "sample_txn 1" and tbl = "DataTable_new [INTEGER]"
        and index = 0]
  have ra: "Append sample_env sample_ops ?T (sample_txn 1) (DataTable_new [INTEGER]) ?A
      = Some (DataTable_new [INTEGER], sample_txn 1,
              Some (NotImplementedException ''Constraint type not implemented!''))"
  proof -
    have na: "verify_append_constraint sample_env ?T ?A (NOT_NULL 0) = None"
      using a[THEN conjunct2, THEN conjunct1] nulls(1) by simp
    obtain pre c post ex where r: "[NOT_NULL 0, FOREIGN_KEY] = pre @ c # post"
        "verify_append_constraint sample_env ?T ?A c = Some ex"
        "c = FOREIGN_KEY \<longrightarrow> ex = NotImplementedException ''Constraint type not implemented!''"
        "Append sample_env sample_ops ?T (sample_txn 1) (DataTable_new [INTEGER]) ?A
           = Some (DataTable_new [INTEGER], sample_txn 1, Some ex)"
      using a[THEN conjunct1] h(1) unfolding cs by blast
    have "c = NOT_NULL 0 \<or> c = FOREIGN_KEY"
      using r(1) by (auto simp: Cons_eq_append_conv)
    then have "c = FOREIGN_KEY" using r(2) na by auto
    then show ?thesis using r(3,4) by simp
  qed
  have rb: "Append sample_env sample_ops ?T (sample_txn 1) (DataTable_new [INTEGER]) ?B
      = Some (DataTable_new [INTEGER], sample_txn 1,
              Some (ConstraintException ''NOT NULL constraint failed: t.a''))"
  proof -
    have nb: "verify_append_constraint sample_env ?T ?B (NOT_NULL 0)
        = Some (ConstraintException ''NOT NULL constraint failed: t.a'')"
      using b[THEN conjunct2, THEN conjunct1] nulls(2) name by simp
    obtain pre c post ex where r: "[NOT_NULL 0, FOREIGN_KEY] = pre @ c # post"
        "\<forall>p \<in> set pre. verify_append_constraint sample_env ?T ?B p = None"
        "verify_append_constraint sample_env ?T ?B c = Some ex"
        "Append sample_env sample_ops ?T (sample_txn 1) (DataTable_new [INTEGER]) ?B
           = Some (DataTable_new [INTEGER], sample_txn 1, Some ex)"
      using b[THEN conjunct1] h(2) unfolding cs by blast
    have "pre = [] \<and> c = NOT_NULL 0 \<or> NOT_NULL 0 \<in> set pre"
      using r(1) by (auto simp: Cons_eq_append_conv)
    then have "c = NOT_NULL 0" using r(2) nb by auto
    then show ?thesis using r(3,4) nb by simp
  qed
  show ?thesis using h(1) ra rb by simp
qed

subsection \<open>Index coordination\<close>

lemma append_indexes_loop_all:
  "\<forall>ix \<in> set ixs. fst (index_Append ops ix chunk r) \<Longrightarrow>
   append_indexes_loop ops chunk r n ixs = (map (\<lambda>ix. snd (index_Append ops ix chunk r)) ixs, None)"
  by (induction ixs arbitrary: n) (auto split: prod.splits)

lemma append_indexes_loop_first:
  "i < length ixs \<Longrightarrow> \<not> fst (index_Append ops (ixs ! i) chunk r) \<Longrightarrow>
   \<forall>j<i. fst (index_Append ops (ixs ! j) chunk r) \<Longrightarrow>
   append_indexes_loop ops chunk r n ixs =
     (map (\<lambda>ix. snd (index_Append ops ix chunk r)) (take i ixs)
        @ snd (index_Append ops (ixs ! i) chunk r) # drop (Suc i) ixs, Some (n + i))"
proof (induction ixs arbitrary: n i)
  case Nil
  then show ?case by simp
next
  case (Cons ix ixs)
  show ?case
  proof (cases i)
    case 0
    with Cons.prems show ?thesis by (auto split: prod.splits)
  next
    case (Suc i')
    have ok: "fst (index_Append ops ix chunk r)"
      using Cons.prems(3) Suc by auto
    have rest: "\<forall>j<i'. fst (index_Append ops (ixs ! j) chunk r)"
      using Cons.prems(3) Suc by auto
    have "append_indexes_loop ops chunk r (Suc n) ixs =
      (map (\<lambda>ix. snd (index_Append ops ix chunk r)) (take i' ixs)
        @ snd (index_Append ops (ixs ! i') chunk r) # drop (Suc i') ixs, Some (Suc n + i'))"
      using Cons.IH[of i' "Suc n"] Cons.prems(1,2) Suc rest by simp
    with ok Suc show ?thesis by (auto split: prod.splits)
  qed
qed

lemma update_indexes_loop_all:
  "\<forall>ix \<in> set ixs. IndexIsUpdated ops ix cols \<longrightarrow> fst (index_Append ops ix chunk r) \<Longrightarrow>
   update_indexes_loop ops cols chunk r n ixs =
     (map (\<lambda>ix. if IndexIsUpdated ops ix cols then snd (index_Append ops ix chunk r) else ix) ixs, None)"
  by (induction ixs arbitrary: n) (auto split: prod.splits)

lemma update_indexes_loop_first:
  "i < length ixs \<Longrightarrow> IndexIsUpdated ops (ixs ! i) cols \<Longrightarrow>
   \<not> fst (index_Append ops (ixs ! i) chunk r) \<Longrightarrow>
   \<forall>j<i. IndexIsUpdated ops (ixs ! j) cols \<longrightarrow> fst (index_Append ops (ixs ! j) chunk r) \<Longrightarrow>
   update_indexes_loop ops cols chunk r n ixs =
     (map (\<lambda>ix. if IndexIsUpdated ops ix cols then snd (index_Append ops ix chunk r) else ix) (take i ixs)
        @ snd (index_Append ops (ixs ! i) chunk r) # drop (Suc i) ixs, Some (n + i))"
proof (induction ixs arbitrary: n i)
  case Nil
  then show ?case by simp
next
  case (Cons ix ixs)
  show ?case
  proof (cases i)
    case 0
    with Cons.prems show ?thesis by (auto split: prod.splits)
  next
    case (Suc i')
    have ok: "IndexIsUpdated ops ix cols \<longrightarrow> fst (index_Append ops ix chunk r)"
      using Cons.prems(4) Suc by auto
    have rest: "\<forall>j<i'. IndexIsUpdated ops (ixs ! j) cols \<longrightarrow> fst (index_Append ops (ixs ! j) chunk r)"
      using Cons.prems(4) Suc by auto
    have "update_indexes_loop ops cols chunk r (Suc n) ixs =
      (map (\<lambda>ix. if IndexIsUpdated ops ix cols then snd (index_Append ops ix chunk r) else ix) (take i' ixs)
        @ snd (index_Append ops (ixs ! i') chunk r) # drop (Suc i') ixs, Some (Suc n + i'))"
      using Cons.IH[of i' "Suc n"] Cons.prems(1,2,3) Suc rest by simp
    with ok Suc show ?thesis by (auto split: prod.splits)
  qed
qed

text \<open>Claim C4.  \<open>r\<close> is the vector of row identifiers that \<^verbatim>\<open>AppendToIndexes\<close>
  generates, \<open>m\<close> the mock chunk that \<^verbatim>\<open>UpdateIndexes\<close> builds.  When every index accepts
  the append, each index has received the one call of \<^verbatim>\<open>Append\<close>, no \<^verbatim>\<open>Delete\<close>, and no
  exception is thrown.  When the index at position \<open>i\<close> is the first whose \<^verbatim>\<open>Append\<close>
  answers false, every index before \<open>i\<close> has received \<^verbatim>\<open>Append\<close> and then \<^verbatim>\<open>Delete\<close> with
  the same chunk and row identifiers, the index \<open>i\<close> its \<^verbatim>\<open>Append\<close> only, the indexes
  after \<open>i\<close> are untouched, and the \<open>ConstraintException\<close> with the message
  "PRIMARY KEY or UNIQUE constraint violated: duplicated key" is thrown.  For
  \<^verbatim>\<open>UpdateIndexes\<close> the same holds of the indexes for which \<^verbatim>\<open>IndexIsUpdated\<close> is true;
  the others are skipped in both loops.\<close>

theorem index_coordination:
  assumes "r = append_row_identifiers env chunk row_start"
    and "m = CreateMockChunk table column_ids updates"
  shows
  "((\<forall>ix \<in> set ixs. fst (index_Append ops ix chunk r)) \<longrightarrow>
      AppendToIndexes env ops ixs chunk row_start =
        (map (\<lambda>ix. snd (index_Append ops ix chunk r)) ixs, None))
   \<and> (i < length ixs \<and> \<not> fst (index_Append ops (ixs ! i) chunk r)
        \<and> (\<forall>j<i. fst (index_Append ops (ixs ! j) chunk r)) \<longrightarrow>
      AppendToIndexes env ops ixs chunk row_start =
        (map (\<lambda>ix. index_Delete ops (snd (index_Append ops ix chunk r)) chunk r) (take i ixs)
           @ snd (index_Append ops (ixs ! i) chunk r) # drop (Suc i) ixs,
         Some (ConstraintException
           (''PRIMARY KEY or UNIQUE'' @ '' constraint violated: '' @ ''duplicated key''))))
   \<and> ((\<forall>ix \<in> set ixs. IndexIsUpdated ops ix column_ids \<longrightarrow> fst (index_Append ops ix m rid)) \<longrightarrow>
      UpdateIndexes ops ixs table column_ids updates rid =
        (map (\<lambda>ix. if IndexIsUpdated ops ix column_ids then snd (index_Append ops ix m rid) else ix)
           ixs, None))
   \<and> (i < length ixs \<and> IndexIsUpdated ops (ixs ! i) column_ids
        \<and> \<not> fst (index_Append ops (ixs ! i) m rid)
        \<and> (\<forall>j<i. IndexIsUpdated ops (ixs ! j) column_ids \<longrightarrow> fst (index_Append ops (ixs ! j) m rid))
      \<longrightarrow>
      UpdateIndexes ops ixs table column_ids updates rid =
        (map (\<lambda>ix. if IndexIsUpdated ops ix column_ids
                    then (if IndexIsUpdated ops (snd (index_Append ops ix m rid)) column_ids
                          then index_Delete ops (snd (index_Append ops ix m rid)) m rid
                          else snd (index_Append ops ix m rid))
                    else ix) (take i ixs)
           @ snd (index_Append ops (ixs ! i) m rid) # drop (Suc i) ixs,
         Some (ConstraintException
           (''PRIMARY KEY or UNIQUE'' @ '' constraint violated: '' @ ''duplicated key''))))"
proof (intro conjI impI)
  assume "\<forall>ix \<in> set ixs. fst (index_Append ops ix chunk r)"
  then show "AppendToIndexes env ops ixs chunk row_start =
        (map (\<lambda>ix. snd (index_Append ops ix chunk r)) ixs, None)"
    unfolding AppendToIndexes_def assms(1)[symmetric]
    by (simp add: append_indexes_loop_all Let_def)
next
  assume a: "i < length ixs \<and> \<not> fst (index_Append ops (ixs ! i) chunk r)
        \<and> (\<forall>j<i. fst (index_Append ops (ixs ! j) chunk r))"
  then have ne: "length ixs \<noteq> 0" by auto
  from a have loop: "append_indexes_loop ops chunk r 0 ixs =
     (map (\<lambda>ix. snd (index_Append ops ix chunk r)) (take i ixs)
        @ snd (index_Append ops (ixs ! i) chunk r) # drop (Suc i) ixs, Some (0 + i))"
    by (intro append_indexes_loop_first) auto
  from a have len: "min (length ixs) i = i" by simp
  show "AppendToIndexes env ops ixs chunk row_start =
        (map (\<lambda>ix. index_Delete ops (snd (index_Append ops ix chunk r)) chunk r) (take i ixs)
           @ snd (index_Append ops (ixs ! i) chunk r) # drop (Suc i) ixs,
         Some (ConstraintException
           (''PRIMARY KEY or UNIQUE'' @ '' constraint violated: '' @ ''duplicated key'')))"
    using ne loop len unfolding AppendToIndexes_def assms(1)[symmetric]
    by (simp add: Let_def delete_indexes_loop_def duplicated_key_def o_def)
next
  assume "\<forall>ix \<in> set ixs. IndexIsUpdated ops ix column_ids \<longrightarrow> fst (index_Append ops ix m rid)"
  then show "UpdateIndexes ops ixs table column_ids updates rid =
        (map (\<lambda>ix. if IndexIsUpdated ops ix column_ids then snd (index_Append ops ix m rid) else ix)
           ixs, None)"
    unfolding UpdateIndexes_def assms(2)[symmetric]
    by (simp add: update_indexes_loop_all Let_def)
next
  assume a: "i < length ixs \<and> IndexIsUpdated ops (ixs ! i) column_ids
        \<and> \<not> fst (index_Append ops (ixs ! i) m rid)
        \<and> (\<forall>j<i. IndexIsUpdated ops (ixs ! j) column_ids \<longrightarrow> fst (index_Append ops (ixs ! j) m rid))"
  then have ne: "length ixs \<noteq> 0" by auto
  from a have loop: "update_indexes_loop ops column_ids m rid 0 ixs =
     (map (\<lambda>ix. if IndexIsUpdated ops ix column_ids then snd (index_Append ops ix m rid) else ix)
          (take i ixs)
        @ snd (index_Append ops (ixs ! i) m rid) # drop (Suc i) ixs, Some (0 + i))"
    by (intro update_indexes_loop_first) auto
  from a have len: "min (length ixs) i = i" by simp
  show "UpdateIndexes ops ixs table column_ids updates rid =
        (map (\<lambda>ix. if IndexIsUpdated ops ix column_ids
                    then (if IndexIsUpdated ops (snd (index_Append ops ix m rid)) column_ids
                          then index_Delete ops (snd (index_Append ops ix m rid)) m rid
                          else snd (index_Append ops ix m rid))
                    else ix) (take i ixs)
           @ snd (index_Append ops (ixs ! i) m rid) # drop (Suc i) ixs,
         Some (ConstraintException
           (''PRIMARY KEY or UNIQUE'' @ '' constraint violated: '' @ ''duplicated key'')))"
    using ne loop len unfolding UpdateIndexes_def assms(2)[symmetric]
    by (simp add: Let_def delete_updated_loop_def duplicated_key_def o_def)
qed

theorem index_coordination_witness:
  "AppendToIndexes sample_env sample_ops
       [sample_index True True, sample_index True False, sample_index False True,
        sample_index True True]
       (column_chunk 1 (list_vector INTEGER [7] {})) 0
     = ([\<lparr>accepts = True, touched = True, calls = [''Append'', ''Delete'']\<rparr>,
         \<lparr>accepts = True, touched = False, calls = [''Append'', ''Delete'']\<rparr>,
         \<lparr>accepts = False, touched = True, calls = [''Append'']\<rparr>,
         \<lparr>accepts = True, touched = True, calls = []\<rparr>],
        Some (ConstraintException ''PRIMARY KEY or UNIQUE constraint violated: duplicated key''))
   \<and> UpdateIndexes sample_ops
       [sample_index True True, sample_index True False, sample_index False True,
        sample_index True True]
       (sample_table []) [0] (column_chunk 1 (list_vector INTEGER [7] {}))
       (list_vector BIGINT [0] {})
     = ([\<lparr>accepts = True, touched = True, calls = [''Append'', ''Delete'']\<rparr>,
         \<lparr>accepts = True, touched = False, calls = []\<rparr>,
         \<lparr>accepts = False, touched = True, calls = [''Append'']\<rparr>,
         \<lparr>accepts = True, touched = True, calls = []\<rparr>],
        Some (ConstraintException ''PRIMARY KEY or UNIQUE constraint violated: duplicated key''))
   \<and> AppendToIndexes sample_env sample_ops [sample_index True True, sample_index True False]
       (column_chunk 1 (list_vector INTEGER [7] {})) 0
     = ([\<lparr>accepts = True, touched = True, calls = [''Append'']\<rparr>,
         \<lparr>accepts = True, touched = False, calls = [''Append'']\<rparr>], None)
   \<and> UpdateIndexes sample_ops [sample_index True True, sample_index False False]
       (sample_table []) [0] (column_chunk 1 (list_vector INTEGER [7] {}))
       (list_vector BIGINT [0] {})
     = ([\<lparr>accepts = True, touched = True, calls = [''Append'']\<rparr>,
         \<lparr>accepts = False, touched = False, calls = []\<rparr>], None)"
  using index_coordination [OF refl refl, where
          ixs = "[sample_index True True, sample_index True False, sample_index False True,
            sample_index True True]" and ops = sample_ops
          and chunk = "column_chunk 1 (list_vector INTEGER [7] {})" and env = sample_env
          and row_start = 0 and i = 2 and column_ids = "[0]" and table = "sample_table []"
          and updates = "column_chunk 1 (list_vector INTEGER [7] {})"
          and rid = "list_vector BIGINT [0] {}"]
        index_coordination [OF refl refl, where
          ixs = "[sample_index True True, sample_index True False]" and ops = sample_ops
          and chunk = "column_chunk 1 (list_vector INTEGER [7] {})" and env = sample_env
          and row_start = 0]
        index_coordination [OF refl refl, where
          ixs = "[sample_index True True, sample_index False False]" and ops = sample_ops
          and column_ids = "[0]" and table = "sample_table []"
          and updates = "column_chunk 1 (list_vector INTEGER [7] {})"
          and rid = "list_vector BIGINT [0] {}"]
  by (simp add: sample_ops_def sample_index_def less_Suc_eq numeral_2_eq_2)

subsection \<open>Conflicts in Update\<close>

lemma verify_update_constraint_no_conflict:
  "verify_update_constraint env table chunk column_ids c \<noteq> Some (TransactionException msg)"
proof -
  have nn: "\<And>index i ids. not_null_update_loop table chunk index i ids
     \<noteq> Some (TransactionException msg)"
  proof -
    fix index i ids
    show "not_null_update_loop table chunk index i ids \<noteq> Some (TransactionException msg)"
      by (induction ids arbitrary: i) (auto simp: VerifyNotNullConstraint_def)
  qed
  have chk: "\<And>e m. VerifyCheckConstraint table e m \<noteq> Some (TransactionException msg)"
    by (simp add: VerifyCheckConstraint_def split: ExecResult.splits)
  have uq: "\<And>keys m. unique_keys_loop keys m \<noteq> Some (TransactionException msg)"
  proof -
    fix keys m
    show "unique_keys_loop keys m \<noteq> Some (TransactionException msg)"
      by (induction keys) auto
  qed
  show ?thesis
    by (cases c)
       (auto simp: verify_update_constraint_def nn chk uq CreateMockChunk_desired_def
          VerifyUniqueConstraint_def not_implemented_def Let_def
          split: sum.splits option.splits if_splits)
qed

lemma verify_update_loop_no_conflict:
  "verify_update_loop env table chunk column_ids cs \<noteq> Some (TransactionException msg)"
  by (induction cs) (auto simp: verify_update_constraint_no_conflict split: option.splits)

lemma UpdateIndexes_no_conflict:
  "snd (UpdateIndexes ops ixs table column_ids updates rid) \<noteq> Some (TransactionException msg)"
  by (auto simp: UpdateIndexes_def duplicated_key_def Let_def split: prod.splits option.splits)

lemma update_write_loop_no_conflict:
  "snd (update_write_loop env column_id v ids pairs tbl) \<noteq> Some (TransactionException msg)"
  by (induction pairs arbitrary: tbl) (auto split: option.splits prod.splits simp: Let_def)

lemma update_columns_loop_no_conflict:
  "snd (update_columns_loop env updates rid col_idx column_ids tbl)
     \<noteq> Some (TransactionException msg)"
proof (induction column_ids arbitrary: col_idx tbl)
  case Nil
  show ?case by simp
next
  case (Cons c cs)
  show ?case
    using update_write_loop_no_conflict[of env c "chunk_data updates col_idx" "vec_data rid"
        "Exec_pairs rid" tbl msg] Cons
    by (auto split: prod.splits option.splits)
qed

lemma update_columns_loop_conflict_False:
  "update_columns_loop env updates rid col_idx column_ids tbl
     = (t, Some (TransactionException msg)) \<Longrightarrow> False"
  using update_columns_loop_no_conflict[of env updates rid col_idx column_ids tbl msg] by simp

lemma update_conflict_loop_None:
  "update_conflict_loop env chunk txn ids pairs = None \<Longrightarrow>
   \<forall>(i, k) \<in> set pairs. \<not> version_conflict env txn chunk (nat (ids i - int (vc_start chunk)))"
  by (induction pairs) (auto simp: Let_def split: if_splits)

text \<open>Claim C1.  In \<^verbatim>\<open>Update\<close> the check for conflicts runs over the whole batch before
  any \<^verbatim>\<open>PushTuple\<close> and before any value of the base table is overwritten.  When the
  call throws a \<open>TransactionException\<close>, the table and the transaction (its undo buffer)
  are what they were before the call.  When the call has added to the undo buffer, or
  changed a column segment or a version chunk, the chunk of the batch was found and no
  row of the batch had a version owned by another transaction.\<close>

theorem update_conflict_before_push:
  assumes "Update env ops table txn tbl row_identifiers column_ids updates = (tbl', txn', result)"
  shows "((\<exists>msg. result = Some (TransactionException msg)) \<longrightarrow> tbl' = tbl \<and> txn' = txn)
     \<and> (undo_buffer txn' \<noteq> undo_buffer txn \<or> columns tbl' \<noteq> columns tbl
          \<or> storage_tree tbl' \<noteq> storage_tree tbl \<longrightarrow>
        (\<exists>ci. GetChunk tbl (first_id row_identifiers) = Some ci \<and>
           (\<forall>(i, k) \<in> set (Exec_pairs row_identifiers).
              \<not> version_conflict env txn (storage_tree tbl ! ci)
                  (nat (vec_data row_identifiers i - int (vc_start (storage_tree tbl ! ci)))))))"
proof -
  have unchanged: "tbl' = tbl \<and> txn' = txn" if "result = Some (TransactionException msg)" for msg
    using assms that
      verify_update_loop_no_conflict[of env table updates column_ids "bound_constraints table" msg]
      UpdateIndexes_no_conflict[of ops "indexes tbl" table column_ids updates row_identifiers msg]
    by (auto simp: Update_def VerifyUpdateConstraints_def no_chunk_def
          split: if_splits option.splits prod.splits
          dest: update_columns_loop_conflict_False)
  have checked: "\<exists>ci. GetChunk tbl (first_id row_identifiers) = Some ci \<and>
           (\<forall>(i, k) \<in> set (Exec_pairs row_identifiers).
              \<not> version_conflict env txn (storage_tree tbl ! ci)
                  (nat (vec_data row_identifiers i - int (vc_start (storage_tree tbl ! ci)))))"
    if "undo_buffer txn' \<noteq> undo_buffer txn \<or> columns tbl' \<noteq> columns tbl
          \<or> storage_tree tbl' \<noteq> storage_tree tbl"
    using assms that
    by (auto simp: Update_def split: if_splits option.splits prod.splits
          dest!: update_conflict_loop_None)
  show ?thesis
    using unchanged checked by blast
qed

theorem update_conflict_witness:
  "Update sample_env sample_ops (sample_table []) (sample_txn 2) sample_storage
       (list_vector BIGINT [0, 1] {}) [0] (column_chunk 1 (list_vector INTEGER [11, 21] {}))
     = (sample_storage, sample_txn 2, Some (TransactionException ''Conflict on tuple update!''))
   \<and> undo_buffer (fst (snd (Update sample_env sample_ops (sample_table []) (sample_txn 2)
         sample_storage (list_vector BIGINT [0] {}) [0]
         (column_chunk 1 (list_vector INTEGER [11] {}))))) \<noteq> undo_buffer (sample_txn 2)
   \<and> snd (snd (Update sample_env sample_ops (sample_table []) (sample_txn 2)
         sample_storage (list_vector BIGINT [0] {}) [0]
         (column_chunk 1 (list_vector INTEGER [11] {})))) = None
   \<and> read_cell sample_env (fst (Update sample_env sample_ops (sample_table []) (sample_txn 2)
         sample_storage (list_vector BIGINT [0] {}) [0]
         (column_chunk 1 (list_vector INTEGER [11] {})))) 0 0 = Some 11
   \<and> \<not> version_conflict sample_env (sample_txn 2) (storage_tree sample_storage ! 0) 0
   \<and> version_conflict sample_env (sample_txn 2) (storage_tree sample_storage ! 0) 1"
proof -
  have c: "Update sample_env sample_ops (sample_table []) (sample_txn 2) sample_storage
       (list_vector BIGINT [0, 1] {}) [0] (column_chunk 1 (list_vector INTEGER [11, 21] {}))
     = (sample_storage, sample_txn 2, Some (TransactionException ''Conflict on tuple update!''))"
    by (simp add: Update_def VerifyUpdateConstraints_def sample_simps eval_simps)
  have s: "undo_buffer (fst (snd (Update sample_env sample_ops (sample_table []) (sample_txn 2)
         sample_storage (list_vector BIGINT [0] {}) [0]
         (column_chunk 1 (list_vector INTEGER [11] {}))))) \<noteq> undo_buffer (sample_txn 2)
   \<and> snd (snd (Update sample_env sample_ops (sample_table []) (sample_txn 2)
         sample_storage (list_vector BIGINT [0] {}) [0]
         (column_chunk 1 (list_vector INTEGER [11] {})))) = None
   \<and> read_cell sample_env (fst (Update sample_env sample_ops (sample_table []) (sample_txn 2)
         sample_storage (list_vector BIGINT [0] {}) [0]
         (column_chunk 1 (list_vector INTEGER [11] {})))) 0 0 = Some 11"
    by (simp add: Update_def VerifyUpdateConstraints_def UpdateIndexes_def sample_simps eval_simps)
  obtain t x r where u: "Update sample_env sample_ops (sample_table []) (sample_txn 2)
         sample_storage (list_vector BIGINT [0] {}) [0]
         (column_chunk 1 (list_vector INTEGER [11] {})) = (t, x, r)"
    using prod_cases3 by blast
  show ?thesis
    using c s update_conflict_before_push [OF c] update_conflict_before_push [OF u]
    by (simp add: sample_simps eval_simps)
qed

subsection \<open>Conflicts in Delete\<close>

text \<open>Claim C2 says that a \<^verbatim>\<open>Delete\<close> that throws leaves no undo record and no deleted
  bit behind.  \<^verbatim>\<open>Delete\<close> checks, pushes and marks row by row: on the batch of the rows
  0 and 1 of the sample table, where row 1 is owned by another transaction, the call
  throws the \<open>TransactionException\<close> at row 1 after it has pushed the undo record of row
  0 and set its deleted bit.\<close>

theorem delete_partial_on_conflict:
  "snd (snd (Delete sample_env (sample_table []) (sample_txn 2) sample_storage
               (list_vector BIGINT [0, 1] {})))
     = Some (TransactionException ''Conflict on tuple deletion!'')
   \<and> undo_buffer (fst (snd (Delete sample_env (sample_table []) (sample_txn 2) sample_storage
               (list_vector BIGINT [0, 1] {}))))
     = [\<lparr>undo_flag = DELETE_TUPLE, undo_chunk_start = 0, undo_row = 0,
         undo_tuple = Some [Some 10]\<rparr>]
   \<and> undo_buffer (sample_txn 2) = []
   \<and> vc_deleted (storage_tree (fst (Delete sample_env (sample_table []) (sample_txn 2)
               sample_storage (list_vector BIGINT [0, 1] {}))) ! 0) = {0}
   \<and> vc_deleted (storage_tree sample_storage ! 0) = {}"
  by (simp add: Delete_def sample_simps eval_simps)

subsection \<open>AppendVector\<close>

lemma segments_adjacent_snoc2:
  "segments_adjacent (xs @ [a, b]) =
     (segments_adjacent (xs @ [a]) \<and> seg_start a + seg_count a = seg_start b)"
  by (induction xs rule: segments_adjacent.induct) auto

lemma segments_adjacent_last_start:
  "seg_start a' = seg_start a \<Longrightarrow>
   segments_adjacent (xs @ [a']) = segments_adjacent (xs @ [a])"
  by (induction xs rule: segments_adjacent.induct) auto

lemma segments_adjacent_cons_start:
  "seg_start b' = seg_start b \<Longrightarrow> seg_count b' = seg_count b \<Longrightarrow>
   segments_adjacent (b' # rest) = segments_adjacent (b # rest)"
  by (cases rest) auto

lemma segments_adjacent_append_cons:
  "segments_adjacent (xs @ a # rest) =
     (segments_adjacent (xs @ [a]) \<and> segments_adjacent (a # rest))"
  by (induction xs rule: segments_adjacent.induct) (auto split: list.splits)

lemma CopyToStorage_nothing: "CopyToStorage v block target ts offset 0 = block"
  by (simp add: CopyToStorage_def)

lemma AppendVector_tree_segments:
  assumes "0 < ts" and "ts \<le> bs" and "segments_ok bs ts (xs @ [seg])"
  shows "\<exists>rest. AppendVector_tree bs ts (xs @ [seg]) data offset count
           = Some (xs @ appended_tail ts seg data offset
                          (min ((bs - seg_offset seg) div ts) count) # rest)
         \<and> segments_ok bs ts (xs @ appended_tail ts seg data offset
                          (min ((bs - seg_offset seg) div ts) count) # rest)
         \<and> (min ((bs - seg_offset seg) div ts) count < count \<longrightarrow>
              rest \<noteq> [] \<and>
              seg_start (hd rest)
                = seg_start seg + (seg_count seg + min ((bs - seg_offset seg) div ts) count))
         \<and> (min ((bs - seg_offset seg) div ts) count = count \<longrightarrow> rest = [])
         \<and> sum_list (map seg_count rest) = count - min ((bs - seg_offset seg) div ts) count"
  using assms(3)
proof (induction "2 * count + (if (bs - seg_offset seg) div ts = 0 then 1 else 0)"
        arbitrary: xs seg offset count rule: less_induct)
  case less
  define etc where "etc = min ((bs - seg_offset seg) div ts) count"
  define seg' where "seg' = appended_tail ts seg data offset etc"
  have ok: "segments_ok bs ts (xs @ [seg])" by (rule less.prems)
  then have off: "seg_offset seg = seg_count seg * ts" "seg_offset seg \<le> bs"
    by (simp_all add: segments_ok_def)
  have us: "usub bs (seg_offset seg) = bs - seg_offset seg"
    using off by (simp add: usub_def)
  have fit: "etc * ts \<le> bs - seg_offset seg"
  proof -
    have "etc \<le> (bs - seg_offset seg) div ts" by (simp add: etc_def)
    then have "etc * ts \<le> ((bs - seg_offset seg) div ts) * ts" by simp
    also have "\<dots> \<le> bs - seg_offset seg" by simp
    finally show ?thesis .
  qed
  have seg'_ok: "seg_offset seg' = seg_count seg' * ts" "seg_offset seg' \<le> bs"
    "seg_start seg' = seg_start seg" "seg_count seg' = seg_count seg + etc"
    using off fit by (simp_all add: seg'_def appended_tail_def algebra_simps)
  have ok': "segments_ok bs ts (xs @ [seg'])"
    using ok seg'_ok segments_adjacent_last_start[of seg' seg xs]
    by (simp add: segments_ok_def)
  have seg'_alt: "0 < etc \<Longrightarrow>
          seg\<lparr>seg_block := CopyToStorage data (seg_block seg) (seg_offset seg) ts offset etc,
                   seg_count := seg_count seg + etc,
                   seg_offset := seg_offset seg + etc * ts\<rparr> = seg'"
      "etc = 0 \<Longrightarrow> seg = seg'"
    by (simp_all add: seg'_def appended_tail_def CopyToStorage_nothing)
  show ?case
  proof (cases "etc < count")
    case False
    then have eq: "etc = count" by (simp add: etc_def)
    have "AppendVector_tree bs ts (xs @ [seg]) data offset count = Some (xs @ [seg'])"
      using assms(1) False
      by (subst AppendVector_tree.simps) (auto simp: us etc_def[symmetric] Let_def seg'_alt)
    then show ?thesis
      using ok' eq unfolding etc_def[symmetric] seg'_def[symmetric] by simp
  next
    case True
    define new where "new = new_ColumnSegment (seg_start seg' + seg_count seg')"
    define count' where "count' = count - etc"
    define offset' where "offset' = (if 0 < etc then offset + etc else offset)"
    have new_ok: "segments_ok bs ts ((xs @ [seg']) @ [new])"
      using ok' by (simp add: segments_ok_def new_def new_ColumnSegment_def segments_adjacent_snoc2)
    have new_off: "seg_offset new = 0" by (simp add: new_def new_ColumnSegment_def)
    have room: "0 < bs div ts" using assms(1,2) by (simp add: div_greater_zero_iff)
    have dec: "2 * count' + (if (bs - seg_offset new) div ts = 0 then 1 else 0)
        < 2 * count + (if (bs - seg_offset seg) div ts = 0 then 1 else 0)"
    proof (cases "etc = 0")
      case True
      with \<open>etc < count\<close> have "(bs - seg_offset seg) div ts = 0"
        by (auto simp: etc_def min_def split: if_splits)
      then show ?thesis using room True by (simp add: new_off count'_def)
    next
      case False
      then show ?thesis using room \<open>etc < count\<close> by (simp add: new_off count'_def)
    qed
    define etc' where "etc' = min ((bs - seg_offset new) div ts) count'"
    from less.hyps[OF dec new_ok, of offset']
    obtain rest where rec: "AppendVector_tree bs ts ((xs @ [seg']) @ [new]) data offset' count'
           = Some ((xs @ [seg']) @ appended_tail ts new data offset' etc' # rest)"
      and rok: "segments_ok bs ts ((xs @ [seg']) @ appended_tail ts new data offset' etc' # rest)"
      and rsum: "sum_list (map seg_count rest) = count' - etc'"
      unfolding etc'_def by blast
    have step: "AppendVector_tree bs ts (xs @ [seg]) data offset count
        = AppendVector_tree bs ts ((xs @ [seg']) @ [new]) data offset' count'"
      using assms(1) True
      by (subst AppendVector_tree.simps)
         (auto simp: us etc_def[symmetric] Let_def new_def count'_def offset'_def seg'_alt)
    have le: "etc' \<le> count'" by (simp add: etc'_def)
    have "AppendVector_tree bs ts (xs @ [seg]) data offset count
        = Some (xs @ seg' # (appended_tail ts new data offset' etc' # rest))"
      using step rec by simp
    moreover have "segments_ok bs ts (xs @ seg' # (appended_tail ts new data offset' etc' # rest))"
      using rok by simp
    moreover have "seg_start (hd (appended_tail ts new data offset' etc' # rest))
        = seg_start seg + (seg_count seg + etc)"
      using seg'_ok by (simp add: appended_tail_def new_def new_ColumnSegment_def)
    moreover have "sum_list (map seg_count (appended_tail ts new data offset' etc' # rest))
        = count - etc"
      using rsum le True by (simp add: appended_tail_def new_def new_ColumnSegment_def count'_def)
    ultimately show ?thesis
      using True unfolding etc_def[symmetric] seg'_def[symmetric] by blast
  qed
qed

lemma AppendVector_column:
  assumes "i < length (columns tbl)" and "i < length (tbl_types tbl)" and "columns tbl ! i \<noteq> []"
    and "ts = GetTypeIdSize env (tbl_types tbl ! i)" and "0 < ts" and "ts \<le> BLOCK_SIZE env"
    and "segments_ok (BLOCK_SIZE env) ts (columns tbl ! i)"
    and "tail = last (columns tbl ! i)"
    and "n = min ((BLOCK_SIZE env - seg_offset tail) div ts) count"
  shows "\<exists>tree'. AppendVector env tbl i data offset count
             = Some (tbl\<lparr>columns := (columns tbl)[i := tree']\<rparr>)
      \<and> segments_ok (BLOCK_SIZE env) ts tree'
      \<and> take (length (columns tbl ! i)) tree'
           = butlast (columns tbl ! i) @ [appended_tail ts tail data offset n]
      \<and> (n < count \<longrightarrow> length (columns tbl ! i) < length tree' \<and>
            seg_start (tree' ! length (columns tbl ! i)) = seg_start tail + (seg_count tail + n))
      \<and> (n = count \<longrightarrow> length tree' = length (columns tbl ! i))
      \<and> sum_list (map seg_count tree') = sum_list (map seg_count (columns tbl ! i)) + count"
proof -
  define xs where "xs = butlast (columns tbl ! i)"
  have tree: "columns tbl ! i = xs @ [tail]"
    using assms(3,8) by (simp add: xs_def)
  have ok: "segments_ok (BLOCK_SIZE env) ts (xs @ [tail])"
    using assms(7) tree by simp
  from AppendVector_tree_segments[OF assms(5,6) ok, of data offset count]
  obtain rest where run: "AppendVector_tree (BLOCK_SIZE env) ts (xs @ [tail]) data offset count
           = Some (xs @ appended_tail ts tail data offset n # rest)"
    and rok: "segments_ok (BLOCK_SIZE env) ts (xs @ appended_tail ts tail data offset n # rest)"
    and more: "n < count \<longrightarrow> rest \<noteq> [] \<and> seg_start (hd rest) = seg_start tail + (seg_count tail + n)"
    and same: "n = count \<longrightarrow> rest = []"
    and rsum: "sum_list (map seg_count rest) = count - n"
    unfolding assms(9)[symmetric] by blast
  let ?tree' = "xs @ appended_tail ts tail data offset n # rest"
  have le: "n \<le> count" by (simp add: assms(9))
  have "AppendVector env tbl i data offset count
             = Some (tbl\<lparr>columns := (columns tbl)[i := ?tree']\<rparr>)"
    using assms(1,2) run tree by (simp add: AppendVector_def assms(4)[symmetric])
  moreover have "take (length (columns tbl ! i)) ?tree'
           = butlast (columns tbl ! i) @ [appended_tail ts tail data offset n]"
    by (simp add: tree)
  moreover have "n < count \<longrightarrow> length (columns tbl ! i) < length ?tree' \<and>
            seg_start (?tree' ! length (columns tbl ! i)) = seg_start tail + (seg_count tail + n)"
    using more by (auto simp: tree nth_append hd_conv_nth)
  moreover have "n = count \<longrightarrow> length ?tree' = length (columns tbl ! i)"
    using same by (simp add: tree)
  moreover have "sum_list (map seg_count ?tree') = sum_list (map seg_count (columns tbl ! i)) + count"
    using rsum le by (simp add: tree appended_tail_def)
  ultimately show ?thesis
    using rok by blast
qed

text \<open>Claim C5.  \<open>tail\<close> is the last segment of column \<open>i\<close>, \<open>ts\<close> the size of its type
  (positive, and no larger than a block), \<open>n\<close> the number
  \<open>min ((BLOCK_SIZE - tail.offset) / ts, count)\<close>.  On a column whose segments satisfy the
  invariants, \<^verbatim>\<open>AppendVector\<close> returns; it has written exactly \<open>n\<close> values to the tail
  segment and left the segments before it alone; when values remain it has appended
  segments, the first of which starts at the start of the tail plus its new count; the
  counts of the segments have grown by \<open>count\<close> in all; and afterwards every segment of
  the column satisfies \<open>offset = count * ts\<close> and \<open>offset \<le> BLOCK_SIZE\<close>, and every
  segment starts where the one before it ends.\<close>

theorem AppendVector_segments:
  assumes "i < length (columns tbl)" and "i < length (tbl_types tbl)" and "columns tbl ! i \<noteq> []"
    and "ts = GetTypeIdSize env (tbl_types tbl ! i)" and "0 < ts" and "ts \<le> BLOCK_SIZE env"
    and "segments_ok (BLOCK_SIZE env) ts (columns tbl ! i)"
    and "tail = last (columns tbl ! i)"
    and "n = min ((BLOCK_SIZE env - seg_offset tail) div ts) count"
  shows "\<exists>tree'. AppendVector env tbl i data offset count
             = Some (tbl\<lparr>columns := (columns tbl)[i := tree']\<rparr>)
      \<and> segments_ok (BLOCK_SIZE env) ts tree'
      \<and> take (length (columns tbl ! i)) tree'
           = butlast (columns tbl ! i) @ [appended_tail ts tail data offset n]
      \<and> (n < count \<longrightarrow> length (columns tbl ! i) < length tree' \<and>
            seg_start (tree' ! length (columns tbl ! i)) = seg_start tail + (seg_count tail + n))
      \<and> (n = count \<longrightarrow> length tree' = length (columns tbl ! i))
      \<and> sum_list (map seg_count tree') = sum_list (map seg_count (columns tbl ! i)) + count"
  using assms by (rule AppendVector_column)

theorem AppendVector_segments_witness:
  "segments_ok (BLOCK_SIZE sample_env) 4 (columns (DataTable_new [INTEGER] :: SampleIndex DataTable) ! 0)
   \<and> map (\<lambda>s. (seg_start s, seg_count s, seg_offset s))
         (columns (the (AppendVector sample_env (DataTable_new [INTEGER] :: SampleIndex DataTable) 0
            (list_vector INTEGER [5, 6, 7] {}) 0 3)) ! 0)
       = [(0, 2, 8), (2, 1, 4)]
   \<and> segments_ok (BLOCK_SIZE sample_env) 4
         (columns (the (AppendVector sample_env (DataTable_new [INTEGER] :: SampleIndex DataTable) 0
            (list_vector INTEGER [5, 6, 7] {}) 0 3)) ! 0)"
proof -
  let ?t = "DataTable_new [INTEGER] :: SampleIndex DataTable"
  have cols: "columns ?t = [[new_ColumnSegment 0]]" and tys: "tbl_types ?t = [INTEGER]"
    by (simp_all add: DataTable_new_def AppendVersionChunk_def)
  have ok: "segments_ok (BLOCK_SIZE sample_env) 4 (columns ?t ! 0)"
    by (simp add: cols segments_ok_def new_ColumnSegment_def)
  have ts: "4 = GetTypeIdSize sample_env (tbl_types ?t ! 0)"
    by (simp add: tys sample_env_def)
  have run: "AppendVector_tree 8 4 [new_ColumnSegment 0] (list_vector INTEGER [5, 6, 7] {}) 0 3
      = Some [appended_tail 4 (new_ColumnSegment 0) (list_vector INTEGER [5, 6, 7] {}) 0 2,
              appended_tail 4 (new_ColumnSegment 2) (list_vector INTEGER [5, 6, 7] {}) 2 1]"
    apply (subst AppendVector_tree.simps)
    apply (simp add: usub_def new_ColumnSegment_def Let_def appended_tail_def)
    apply (subst AppendVector_tree.simps)
    apply (simp add: usub_def new_ColumnSegment_def Let_def appended_tail_def numeral_2_eq_2)
    done
  have ev: "map (\<lambda>s. (seg_start s, seg_count s, seg_offset s))
         (columns (the (AppendVector sample_env ?t 0 (list_vector INTEGER [5, 6, 7] {}) 0 3)) ! 0)
       = [(0, 2, 8), (2, 1, 4)]"
  proof -
    have fields: "\<And>k. seg_start (new_ColumnSegment k) = k"
      "\<And>k. seg_count (new_ColumnSegment k) = 0" "\<And>k. seg_offset (new_ColumnSegment k) = 0"
      by (simp_all add: new_ColumnSegment_def)
    show ?thesis
      by (simp add: AppendVector_def cols tys sample_env_def run appended_tail_def fields)
  qed
  from AppendVector_segments [where env = sample_env and tbl = ?t and i = 0 and ts = 4
      and data = "list_vector INTEGER [5, 6, 7] {}" and offset = 0 and count = 3, OF _ _ _ ts _ _ ok refl refl]
  obtain tree' where "AppendVector sample_env ?t 0 (list_vector INTEGER [5, 6, 7] {}) 0 3
             = Some (?t\<lparr>columns := (columns ?t)[0 := tree']\<rparr>)"
      and "segments_ok (BLOCK_SIZE sample_env) 4 tree'"
    by (auto simp: cols tys sample_env_def)
  then have "segments_ok (BLOCK_SIZE sample_env) 4
         (columns (the (AppendVector sample_env ?t 0 (list_vector INTEGER [5, 6, 7] {}) 0 3)) ! 0)"
    by (simp add: cols)
  with ok ev show ?thesis by blast
qed

subsection \<open>Append\<close>

lemma cols_ok_nth:
  assumes "cols_ok env tbl" and "i < length (tbl_types tbl)"
  shows "i < length (columns tbl)" and "columns tbl ! i \<noteq> []"
    and "0 < GetTypeIdSize env (tbl_types tbl ! i)"
    and "GetTypeIdSize env (tbl_types tbl ! i) \<le> BLOCK_SIZE env"
    and "segments_ok (BLOCK_SIZE env) (GetTypeIdSize env (tbl_types tbl ! i)) (columns tbl ! i)"
  using assms by (simp_all add: cols_ok_def list_all_iff)

lemma cols_ok_storage_tree [simp]:
  "cols_ok env (tbl\<lparr>storage_tree := st\<rparr>) = cols_ok env tbl"
  by (simp add: cols_ok_def)

lemma AppendVector_cols_ok:
  assumes "cols_ok env tbl" and "i < length (tbl_types tbl)"
  shows "\<exists>tree'. AppendVector env tbl i data offset count
             = Some (tbl\<lparr>columns := (columns tbl)[i := tree']\<rparr>)
           \<and> cols_ok env (tbl\<lparr>columns := (columns tbl)[i := tree']\<rparr>)
           \<and> sum_list (map seg_count tree') = sum_list (map seg_count (columns tbl ! i)) + count"
proof -
  note c = cols_ok_nth[OF assms]
  from AppendVector_column[OF c(1) assms(2) c(2) refl c(3) c(4) c(5) refl refl, of "data" offset count]
  obtain tree' where run: "AppendVector env tbl i data offset count
             = Some (tbl\<lparr>columns := (columns tbl)[i := tree']\<rparr>)"
    and ok: "segments_ok (BLOCK_SIZE env) (GetTypeIdSize env (tbl_types tbl ! i)) tree'"
    and tk: "take (length (columns tbl ! i)) tree'
           = butlast (columns tbl ! i) @ [appended_tail (GetTypeIdSize env (tbl_types tbl ! i))
               (last (columns tbl ! i)) data offset
               (min ((BLOCK_SIZE env - seg_offset (last (columns tbl ! i)))
                      div GetTypeIdSize env (tbl_types tbl ! i)) count)]"
    and sm: "sum_list (map seg_count tree') = sum_list (map seg_count (columns tbl ! i)) + count"
    by blast
  have ne: "tree' \<noteq> []" using tk by auto
  have "cols_ok env (tbl\<lparr>columns := (columns tbl)[i := tree']\<rparr>)"
    using assms ok ne by (auto simp: cols_ok_def list_all_iff nth_list_update)
  with run sm show ?thesis by blast
qed

text \<open>The loop over the columns appends \<open>to_copy\<close> values to each column it visits, once
  for each visit.\<close>

lemma append_columns_loop_ok:
  assumes "cols_ok env tbl" and "set is \<subseteq> {..<length (tbl_types tbl)}"
  shows "\<exists>tbl'. append_columns_loop env chunk offset to_copy is tbl = Some tbl'
           \<and> cols_ok env tbl' \<and> storage_tree tbl' = storage_tree tbl
           \<and> tbl_types tbl' = tbl_types tbl \<and> indexes tbl' = indexes tbl
           \<and> statistics tbl' = statistics tbl \<and> cardinality tbl' = cardinality tbl
           \<and> (\<forall>j<length (tbl_types tbl).
                 sum_list (map seg_count (columns tbl' ! j))
                   = sum_list (map seg_count (columns tbl ! j)) + count_list is j * to_copy)"
  using assms
proof (induction "is" arbitrary: tbl)
  case Nil
  then show ?case by simp
next
  case (Cons i "is")
  from Cons.prems have i: "i < length (tbl_types tbl)" by simp
  have len: "length (columns tbl) = length (tbl_types tbl)"
    using Cons.prems(1) by (simp add: cols_ok_def)
  from AppendVector_cols_ok[OF Cons.prems(1) i, of "chunk_data chunk i" offset to_copy]
  obtain tree' where run: "AppendVector env tbl i (chunk_data chunk i) offset to_copy
             = Some (tbl\<lparr>columns := (columns tbl)[i := tree']\<rparr>)"
    and ok: "cols_ok env (tbl\<lparr>columns := (columns tbl)[i := tree']\<rparr>)"
    and sm: "sum_list (map seg_count tree')
               = sum_list (map seg_count (columns tbl ! i)) + to_copy"
    by blast
  define mid where "mid = tbl\<lparr>columns := (columns tbl)[i := tree']\<rparr>"
  have sub: "set is \<subseteq> {..<length (tbl_types mid)}"
    using Cons.prems(2) by (simp add: mid_def)
  have frame: "storage_tree mid = storage_tree tbl" "tbl_types mid = tbl_types tbl"
    "indexes mid = indexes tbl" "statistics mid = statistics tbl"
    "cardinality mid = cardinality tbl"
    by (simp_all add: mid_def)
  have one: "sum_list (map seg_count (columns mid ! j))
      = sum_list (map seg_count (columns tbl ! j)) + (if i = j then to_copy else 0)"
    if "j < length (tbl_types tbl)" for j
    using that len sm by (simp add: mid_def nth_list_update)
  from Cons.IH[OF ok[folded mid_def] sub]
  obtain tbl' where r: "append_columns_loop env chunk offset to_copy is mid = Some tbl'"
    "cols_ok env tbl'" "storage_tree tbl' = storage_tree mid" "tbl_types tbl' = tbl_types mid"
    "indexes tbl' = indexes mid" "statistics tbl' = statistics mid"
    "cardinality tbl' = cardinality mid"
    and rest: "\<forall>j<length (tbl_types mid).
                 sum_list (map seg_count (columns tbl' ! j))
                   = sum_list (map seg_count (columns mid ! j)) + count_list is j * to_copy"
    by blast
  have all: "\<forall>j<length (tbl_types tbl).
                 sum_list (map seg_count (columns tbl' ! j))
                   = sum_list (map seg_count (columns tbl ! j))
                       + count_list (i # is) j * to_copy"
    using rest one by (simp add: frame)
  have "append_columns_loop env chunk offset to_copy (i # is) tbl = Some tbl'"
    using run r(1) by (simp add: mid_def)
  then show ?case using r(2-7) all unfolding frame by blast
qed

lemma count_list_upt: "count_list [0..<n] i = (if i < n then 1 else 0)"
  by (induction n) auto

lemma map_undo_row_id_pushed:
  "map undo_row_id
     (map (\<lambda>k. \<lparr>undo_flag = INSERT_TUPLE, undo_chunk_start = s, undo_row = c + k,
                 undo_tuple = None\<rparr>) [0..<n]) = [s + c..<s + c + n]"
proof -
  have "map (\<lambda>k. s + (c + k)) [0..<n] = [s + c..<s + c + n]"
    by (induction n) (simp_all add: add.assoc)
  then show ?thesis by (simp add: undo_row_id_def o_def)
qed

lemma PushDeletedEntries_fields:
  "vc_start (fst (PushDeletedEntries chunk txn n)) = vc_start chunk"
  "vc_count (fst (PushDeletedEntries chunk txn n)) = vc_count chunk"
  "undo_buffer (snd (PushDeletedEntries chunk txn n)) = undo_buffer txn @
     map (\<lambda>k. \<lparr>undo_flag = INSERT_TUPLE, undo_chunk_start = vc_start chunk,
                undo_row = vc_count chunk + k, undo_tuple = None\<rparr>) [0..<n]"
  by (simp_all add: PushDeletedEntries_def)

lemma AppendVersionChunk_tree:
  "storage_tree (AppendVersionChunk tbl s)
     = storage_tree tbl @ [last (storage_tree (AppendVersionChunk tbl s))]"
  by (simp add: AppendVersionChunk_def)

lemma AppendVersionChunk_frame:
  "vc_start (last (storage_tree (AppendVersionChunk tbl s))) = s"
  "vc_count (last (storage_tree (AppendVersionChunk tbl s))) = 0"
  "cols_ok env (AppendVersionChunk tbl s) = cols_ok env tbl"
  "tbl_types (AppendVersionChunk tbl s) = tbl_types tbl"
  "indexes (AppendVersionChunk tbl s) = indexes tbl"
  "statistics (AppendVersionChunk tbl s) = statistics tbl"
  "cardinality (AppendVersionChunk tbl s) = cardinality tbl"
  "columns (AppendVersionChunk tbl s) = columns tbl"
  by (simp_all add: AppendVersionChunk_def)

lemma chunks_adjacent_cons:
  "chunks_adjacent (a # rest) =
     (chunks_adjacent rest \<and> (rest \<noteq> [] \<longrightarrow> vc_start a + vc_count a = vc_start (hd rest)))"
  by (cases rest) auto


lemma append_loop_ok:
  assumes cap: "0 < STORAGE_CHUNK_SIZE env"
  shows "column_count chunk = length (tbl_types tbl) \<Longrightarrow> cols_ok env tbl \<Longrightarrow>
    storage_tree tbl = pre @ [tail] \<Longrightarrow> vc_count tail \<le> STORAGE_CHUNK_SIZE env \<Longrightarrow>
    \<exists>tbl' txn' new added. append_loop env chunk tbl txn offset remainder = Some (tbl', txn')
      \<and> storage_tree tbl' = pre @ new \<and> new \<noteq> []
      \<and> vc_start (hd new) = vc_start tail
      \<and> vc_count (hd new) = vc_count tail + min (STORAGE_CHUNK_SIZE env - vc_count tail) remainder
      \<and> chunks_adjacent new
      \<and> list_all (\<lambda>c. vc_count c \<le> STORAGE_CHUNK_SIZE env) new
      \<and> sum_list (map vc_count new) = vc_count tail + remainder
      \<and> cols_ok env tbl' \<and> tbl_types tbl' = tbl_types tbl \<and> indexes tbl' = indexes tbl
      \<and> statistics tbl' = statistics tbl \<and> cardinality tbl' = cardinality tbl
      \<and> undo_buffer txn' = undo_buffer txn @ added
      \<and> map undo_row_id added
           = [vc_start tail + vc_count tail..<vc_start tail + vc_count tail + remainder]
      \<and> (\<forall>i<length (tbl_types tbl).
            sum_list (map seg_count (columns tbl' ! i))
              = sum_list (map seg_count (columns tbl ! i)) + remainder)"
proof (induction "2 * remainder + (if STORAGE_CHUNK_SIZE env \<le> vc_count tail then 1 else 0)"
        arbitrary: tbl txn offset remainder pre tail rule: less_induct)
  case less
  let ?CAP = "STORAGE_CHUNK_SIZE env"
  note cc = less.prems(1) and ok = less.prems(2) and st = less.prems(3) and le = less.prems(4)
  have lst: "last (storage_tree tbl) = tail" and ne: "storage_tree tbl \<noteq> []"
    using st by simp_all
  have us: "usub ?CAP (vc_count tail) = ?CAP - vc_count tail"
    using le by (simp add: usub_def)
  show ?case
  proof (cases "0 < remainder")
    case False
    then have "append_loop env chunk tbl txn offset remainder = Some (tbl, txn)"
      by (subst append_loop.simps) simp
    then show ?thesis
      using False st le ok by (intro exI[of _ tbl] exI[of _ txn] exI[of _ "[tail]"] exI[of _ "[]"]) simp
  next
    case True
    define to_copy where "to_copy = min (?CAP - vc_count tail) remainder"
    have tcv: "min (usub ?CAP (vc_count tail)) remainder = to_copy"
      by (simp add: us to_copy_def)
    show ?thesis
    proof (cases "0 < to_copy")
      case False
      then have full: "vc_count tail = ?CAP"
        using True le by (simp add: to_copy_def min_def split: if_splits)
      define tbl3 where "tbl3 = AppendVersionChunk tbl (vc_start tail + vc_count tail)"
      define fresh where "fresh = last (storage_tree tbl3)"
      have st3: "storage_tree tbl3 = (pre @ [tail]) @ [fresh]"
        and fr: "vc_start fresh = vc_start tail + vc_count tail" "vc_count fresh = 0"
        and ok3: "cols_ok env tbl3" and ty3: "tbl_types tbl3 = tbl_types tbl"
        and ix3: "indexes tbl3 = indexes tbl" and sx3: "statistics tbl3 = statistics tbl"
        and ca3: "cardinality tbl3 = cardinality tbl" and co3: "columns tbl3 = columns tbl"
        using AppendVersionChunk_tree[of tbl "vc_start tail + vc_count tail"] st ok
        by (simp_all add: tbl3_def fresh_def AppendVersionChunk_frame)
      have step: "append_loop env chunk tbl txn offset remainder
          = append_loop env chunk tbl3 txn offset remainder"
        apply (subst append_loop.simps)
        apply (simp only: Let_def lst tcv)
        apply (simp add: True False ne tbl3_def)
        done
      have dec: "2 * remainder + (if ?CAP \<le> vc_count fresh then 1 else 0)
          < 2 * remainder + (if ?CAP \<le> vc_count tail then 1 else 0)"
        using cap full fr by simp
      have cc3: "column_count chunk = length (tbl_types tbl3)" using cc ty3 by simp
      have le3: "vc_count fresh \<le> ?CAP" using fr by simp
      from less.hyps[OF dec cc3 ok3 st3 le3, of txn offset]
      obtain tbl' txn' new added where
        run: "append_loop env chunk tbl3 txn offset remainder = Some (tbl', txn')"
        and r: "storage_tree tbl' = (pre @ [tail]) @ new" "new \<noteq> []"
          "vc_start (hd new) = vc_start fresh"
          "chunks_adjacent new" "list_all (\<lambda>c. vc_count c \<le> ?CAP) new"
          "sum_list (map vc_count new) = vc_count fresh + remainder"
          "cols_ok env tbl'" "tbl_types tbl' = tbl_types tbl3" "indexes tbl' = indexes tbl3"
          "statistics tbl' = statistics tbl3" "cardinality tbl' = cardinality tbl3"
          "undo_buffer txn' = undo_buffer txn @ added"
          "map undo_row_id added
             = [vc_start fresh + vc_count fresh..<vc_start fresh + vc_count fresh + remainder]"
        and rc: "\<forall>i<length (tbl_types tbl3).
            sum_list (map seg_count (columns tbl' ! i))
              = sum_list (map seg_count (columns tbl3 ! i)) + remainder"
        by blast
      have adj: "chunks_adjacent (tail # new)"
        using r(2,3,4) fr by (simp add: chunks_adjacent_cons)
      have cs: "\<forall>i<length (tbl_types tbl).
            sum_list (map seg_count (columns tbl' ! i))
              = sum_list (map seg_count (columns tbl ! i)) + remainder"
        using rc by (simp add: ty3 co3)
      show ?thesis
        using step run r adj fr full le ty3 ix3 sx3 ca3 cs
        by (intro exI[of _ tbl'] exI[of _ txn'] exI[of _ "tail # new"] exI[of _ added]) simp
    next
      case copy: True
      define pushed where "pushed = fst (PushDeletedEntries tail txn to_copy)"
      define txn1 where "txn1 = snd (PushDeletedEntries tail txn to_copy)"
      have pd: "PushDeletedEntries tail txn to_copy = (pushed, txn1)"
        by (simp add: pushed_def txn1_def)
      have pf: "vc_start pushed = vc_start tail" "vc_count pushed = vc_count tail"
        "undo_buffer txn1 = undo_buffer txn @
           map (\<lambda>k. \<lparr>undo_flag = INSERT_TUPLE, undo_chunk_start = vc_start tail,
                undo_row = vc_count tail + k, undo_tuple = None\<rparr>) [0..<to_copy]"
        using PushDeletedEntries_fields[of tail txn to_copy] by (simp_all add: pushed_def txn1_def)
      define tbl0 where "tbl0 = set_last_chunk tbl pushed"
      have st0: "storage_tree tbl0 = pre @ [pushed]" and ok0: "cols_ok env tbl0"
        and ty0: "tbl_types tbl0 = tbl_types tbl" and ix0: "indexes tbl0 = indexes tbl"
        and sx0: "statistics tbl0 = statistics tbl" and ca0: "cardinality tbl0 = cardinality tbl"
        and co0: "columns tbl0 = columns tbl"
        using st ok by (simp_all add: tbl0_def set_last_chunk_def)
      have sub: "set [0..<column_count chunk] \<subseteq> {..<length (tbl_types tbl0)}"
        using cc ty0 by auto
      from append_columns_loop_ok[OF ok0 sub, of chunk offset to_copy]
      obtain tbl1 where cl: "append_columns_loop env chunk offset to_copy [0..<column_count chunk] tbl0
             = Some tbl1"
        and ok1: "cols_ok env tbl1" and st1: "storage_tree tbl1 = pre @ [pushed]"
        and ty1: "tbl_types tbl1 = tbl_types tbl" and ix1: "indexes tbl1 = indexes tbl"
        and sx1: "statistics tbl1 = statistics tbl" and ca1: "cardinality tbl1 = cardinality tbl"
        and cl1: "\<forall>j<length (tbl_types tbl0).
                 sum_list (map seg_count (columns tbl1 ! j))
                   = sum_list (map seg_count (columns tbl0 ! j))
                       + count_list [0..<column_count chunk] j * to_copy"
        using st0 ty0 ix0 sx0 ca0 by auto
      have co1: "\<forall>i<length (tbl_types tbl).
            sum_list (map seg_count (columns tbl1 ! i))
              = sum_list (map seg_count (columns tbl ! i)) + to_copy"
        using cl1 cc by (simp add: ty0 co0 count_list_upt)
      define grown where "grown = pushed\<lparr>vc_count := vc_count pushed + to_copy\<rparr>"
      define tbl2 where "tbl2 = set_last_chunk tbl1 grown"
      have gr: "vc_start grown = vc_start tail" "vc_count grown = vc_count tail + to_copy"
        using pf by (simp_all add: grown_def)
      have st2: "storage_tree tbl2 = pre @ [grown]" and ok2: "cols_ok env tbl2"
        and ty2: "tbl_types tbl2 = tbl_types tbl" and ix2: "indexes tbl2 = indexes tbl"
        and sx2: "statistics tbl2 = statistics tbl" and ca2: "cardinality tbl2 = cardinality tbl"
        and co2: "columns tbl2 = columns tbl1"
        using st1 ok1 ty1 ix1 sx1 ca1 by (simp_all add: tbl2_def set_last_chunk_def)
      have lst1: "last (storage_tree tbl1) = pushed" using st1 by simp
      have tc: "to_copy \<le> ?CAP - vc_count tail" "to_copy \<le> remainder"
        by (simp_all add: to_copy_def)
      have grle: "vc_count grown \<le> ?CAP" using gr tc le by simp
      have ids: "map undo_row_id
           (map (\<lambda>k. \<lparr>undo_flag = INSERT_TUPLE, undo_chunk_start = vc_start tail,
                undo_row = vc_count tail + k, undo_tuple = None\<rparr>) [0..<to_copy])
          = [vc_start tail + vc_count tail..<vc_start tail + vc_count tail + to_copy]"
        by (rule map_undo_row_id_pushed)
      show ?thesis
      proof (cases "0 < remainder - to_copy")
        case False
        then have all: "to_copy = remainder" using tc by simp
        have z: "remainder - to_copy = 0" "\<not> to_copy < remainder" using all by simp_all
        have base: "append_loop env chunk tbl2 txn1 (offset + to_copy) 0 = Some (tbl2, txn1)"
          by (subst append_loop.simps) simp
        have run: "append_loop env chunk tbl txn offset remainder = Some (tbl2, txn1)"
          apply (subst append_loop.simps)
          apply (simp only: Let_def lst tcv)
          apply (simp add: True copy ne z base pd tbl0_def[symmetric] cl lst1
                grown_def[symmetric] tbl2_def[symmetric])
          done
        have cs: "\<forall>i<length (tbl_types tbl).
            sum_list (map seg_count (columns tbl2 ! i))
              = sum_list (map seg_count (columns tbl ! i)) + remainder"
          using co1 all by (simp add: co2)
        show ?thesis
          using run st2 gr grle ok2 ty2 ix2 sx2 ca2 pf(3) ids all cs
          by (intro exI[of _ tbl2] exI[of _ txn1] exI[of _ "[grown]"]
                exI[of _ "map (\<lambda>k. \<lparr>undo_flag = INSERT_TUPLE, undo_chunk_start = vc_start tail,
                undo_row = vc_count tail + k, undo_tuple = None\<rparr>) [0..<to_copy]"])
             (simp add: to_copy_def)
      next
        case more: True
        then have filled: "to_copy = ?CAP - vc_count tail" "to_copy < remainder"
          by (simp_all add: to_copy_def min_def split: if_splits)
        define tbl3 where "tbl3 = AppendVersionChunk tbl2 (vc_start grown + vc_count grown)"
        define fresh where "fresh = last (storage_tree tbl3)"
        have st3: "storage_tree tbl3 = (pre @ [grown]) @ [fresh]"
          and fr: "vc_start fresh = vc_start grown + vc_count grown" "vc_count fresh = 0"
          and ok3: "cols_ok env tbl3" and ty3: "tbl_types tbl3 = tbl_types tbl"
          and ix3: "indexes tbl3 = indexes tbl" and sx3: "statistics tbl3 = statistics tbl"
          and ca3: "cardinality tbl3 = cardinality tbl" and co3: "columns tbl3 = columns tbl1"
          using AppendVersionChunk_tree[of tbl2 "vc_start grown + vc_count grown"]
            st2 ok2 ty2 ix2 sx2 ca2 co2
          by (simp_all add: tbl3_def fresh_def AppendVersionChunk_frame)
        have step: "append_loop env chunk tbl txn offset remainder
            = append_loop env chunk tbl3 txn1 (offset + to_copy) (remainder - to_copy)"
          apply (subst append_loop.simps)
          apply (simp only: Let_def lst tcv)
          apply (simp add: True copy ne filled(2) pd tbl0_def[symmetric] cl lst1
                grown_def[symmetric] tbl2_def[symmetric] tbl3_def[symmetric])
          done
        have dec: "2 * (remainder - to_copy) + (if ?CAP \<le> vc_count fresh then 1 else 0)
            < 2 * remainder + (if ?CAP \<le> vc_count tail then 1 else 0)"
          using cap fr copy filled by simp
        have cc3: "column_count chunk = length (tbl_types tbl3)" using cc ty3 by simp
        have le3: "vc_count fresh \<le> ?CAP" using fr by simp
        from less.hyps[OF dec cc3 ok3 st3 le3, of txn1 "offset + to_copy"]
        obtain tbl' txn' new added where
          run: "append_loop env chunk tbl3 txn1 (offset + to_copy) (remainder - to_copy)
                  = Some (tbl', txn')"
          and r: "storage_tree tbl' = (pre @ [grown]) @ new" "new \<noteq> []"
            "vc_start (hd new) = vc_start fresh"
            "chunks_adjacent new" "list_all (\<lambda>c. vc_count c \<le> ?CAP) new"
            "sum_list (map vc_count new) = vc_count fresh + (remainder - to_copy)"
            "cols_ok env tbl'" "tbl_types tbl' = tbl_types tbl3" "indexes tbl' = indexes tbl3"
            "statistics tbl' = statistics tbl3" "cardinality tbl' = cardinality tbl3"
            "undo_buffer txn' = undo_buffer txn1 @ added"
            "map undo_row_id added
               = [vc_start fresh + vc_count fresh
                    ..<vc_start fresh + vc_count fresh + (remainder - to_copy)]"
          and rc: "\<forall>i<length (tbl_types tbl3).
            sum_list (map seg_count (columns tbl' ! i))
              = sum_list (map seg_count (columns tbl3 ! i)) + (remainder - to_copy)"
          by blast
        have cs: "\<forall>i<length (tbl_types tbl).
            sum_list (map seg_count (columns tbl' ! i))
              = sum_list (map seg_count (columns tbl ! i)) + remainder"
          using rc co1 filled(2) by (simp add: ty3 co3)
        have adj: "chunks_adjacent (grown # new)"
          using r(2,3,4) fr by (simp add: chunks_adjacent_cons)
        have cat: "[vc_start tail + vc_count tail..<vc_start tail + vc_count tail + to_copy]
            @ [vc_start fresh + vc_count fresh..<vc_start fresh + vc_count fresh + (remainder - to_copy)]
            = [vc_start tail + vc_count tail..<vc_start tail + vc_count tail + remainder]"
        proof -
          have a: "vc_start fresh + vc_count fresh = vc_start tail + vc_count tail + to_copy"
            using fr gr by simp
          have b: "vc_start tail + vc_count tail + to_copy + (remainder - to_copy)
              = vc_start tail + vc_count tail + remainder"
            using filled by simp
          show ?thesis
            unfolding a
            using upt_add_eq_append[of "vc_start tail + vc_count tail"
                "vc_start tail + vc_count tail + to_copy" "remainder - to_copy"] b
            by (simp add: add.assoc)
        qed
        show ?thesis
          using step run r adj fr gr grle filled ty3 ix3 sx3 ca3 pf(3) ids cat cs
          by (intro exI[of _ tbl'] exI[of _ txn'] exI[of _ "grown # new"]
                exI[of _ "map (\<lambda>k. \<lparr>undo_flag = INSERT_TUPLE, undo_chunk_start = vc_start tail,
                undo_row = vc_count tail + k, undo_tuple = None\<rparr>) [0..<to_copy] @ added"])
             (simp add: to_copy_def)
      qed
    qed
  qed
qed



lemma cols_ok_statistics:
  "cols_ok env (update_all_statistics (tbl\<lparr>indexes := ixs\<rparr>) chunk) = cols_ok env tbl"
  by (simp add: cols_ok_def update_all_statistics_def)








text \<open>The member \<^verbatim>\<open>cardinality\<close> is what it was after every call of \<^verbatim>\<open>Append\<close> that
  returns, with an exception or without.\<close>

lemma Append_cardinality_member:
  assumes "table_ok env tbl" and "length (table_columns table) = length (tbl_types tbl)"
    and "Append env ops table txn tbl chunk = Some (tbl', txn', res)"
  shows "cardinality tbl' = cardinality tbl"
proof (cases "chunk_size chunk \<noteq> 0 \<and> column_count chunk = length (table_columns table)
      \<and> chunk_Verify env chunk \<and> VerifyAppendConstraints env table chunk = None
      \<and> snd (AppendToIndexes env ops (indexes tbl) chunk
             (int (vc_start (last (storage_tree tbl)) + vc_count (last (storage_tree tbl))))) = None")
  case False
  then show ?thesis
    using assms(3)
    by (auto simp: Append_def Let_def split: option.splits prod.splits if_splits)
next
  case True
  have cap: "0 < STORAGE_CHUNK_SIZE env" and ne: "storage_tree tbl \<noteq> []"
    and le: "vc_count (last (storage_tree tbl)) \<le> STORAGE_CHUNK_SIZE env" and ok: "cols_ok env tbl"
    using assms(1) by (simp_all add: table_ok_def)
  define ixs where "ixs = fst (AppendToIndexes env ops (indexes tbl) chunk
      (int (vc_start (last (storage_tree tbl)) + vc_count (last (storage_tree tbl)))))"
  have ai: "AppendToIndexes env ops (indexes tbl) chunk
      (int (vc_start (last (storage_tree tbl)) + vc_count (last (storage_tree tbl)))) = (ixs, None)"
    using True by (simp add: ixs_def prod_eq_iff)
  define tbl0 where "tbl0 = update_all_statistics (tbl\<lparr>indexes := ixs\<rparr>) chunk"
  have st0: "storage_tree tbl0 = butlast (storage_tree tbl) @ [last (storage_tree tbl)]"
    and ty0: "tbl_types tbl0 = tbl_types tbl" and ca0: "cardinality tbl0 = cardinality tbl"
    using ne by (simp_all add: tbl0_def update_all_statistics_def)
  have ok0: "cols_ok env tbl0" using ok by (simp add: tbl0_def cols_ok_statistics)
  have cc: "column_count chunk = length (tbl_types tbl0)"
    using True assms(2) ty0 by simp
  from append_loop_ok[OF cap cc ok0 st0 le, where txn = txn and offset = 0
        and remainder = "chunk_size chunk"]
  obtain t x where run: "append_loop env chunk tbl0 txn 0 (chunk_size chunk) = Some (t, x)"
    and ca: "cardinality t = cardinality tbl0"
    by blast
  have "Append env ops table txn tbl chunk = Some (t, x, None)"
    using True ne ai run by (simp add: Append_def Let_def tbl0_def)
  then show ?thesis using assms(3) ca ca0 by simp
qed

subsection \<open>Scan\<close>


lemma chunk_size_tuples_to_chunk:
  "chunk_size (tuples_to_chunk tbl column_ids tuples) \<le> length tuples"
  by (simp add: chunk_size_def tuples_to_chunk_def)

lemma length_map_filter_le: "length (List.map_filter f xs) \<le> length xs"
  by (simp add: List.map_filter_def)

lemma VersionChunk_Scan_size:
  "chunk_size (snd (VersionChunk_Scan env tbl ci state txn column_ids sub_offset))
     \<le> STANDARD_VECTOR_SIZE env"
proof -
  define chunk where "chunk = storage_tree tbl ! ci"
  define end_row where "end_row = (if ci = sc_last_chunk state then sc_last_chunk_count state
     else vc_count chunk)"
  define scan_start where "scan_start = sub_offset * STANDARD_VECTOR_SIZE env"
  define scan_count where "scan_count = min (STANDARD_VECTOR_SIZE env) (end_row - scan_start)"
  define tuples where "tuples = List.map_filter (visible_tuple env tbl txn chunk)
                     [scan_start..<scan_start + scan_count]"
  have "length tuples \<le> length [scan_start..<scan_start + scan_count]"
    unfolding tuples_def by (rule length_map_filter_le)
  then have "length tuples \<le> STANDARD_VECTOR_SIZE env"
    by (simp add: scan_count_def)
  moreover have "snd (VersionChunk_Scan env tbl ci state txn column_ids sub_offset)
      = tuples_to_chunk tbl column_ids tuples"
    by (simp add: VersionChunk_Scan_def Let_def tuples_def scan_count_def scan_start_def
          end_row_def chunk_def)
  ultimately show ?thesis
    using chunk_size_tuples_to_chunk[of tbl column_ids tuples] by simp
qed

lemma VersionChunk_Scan_last:
  "fst (VersionChunk_Scan env tbl c state txn column_ids sub_offset)
     = (end_row_of tbl state c \<le> sub_offset * STANDARD_VECTOR_SIZE env + STANDARD_VECTOR_SIZE env)"
  by (simp add: VersionChunk_Scan_def Let_def end_row_of_def)


lemma Scan_turns_Suc:
  "sc_chunk state = Some c \<Longrightarrow>
   Scan_turns env tbl txn column_ids (Suc n) (result, state)
     = Scan_turns env tbl txn column_ids n (snd (Scan_turn env tbl txn column_ids c state))"
  by simp

lemma Scan_first_return:
  assumes vs: "0 < STANDARD_VECTOR_SIZE env"
  shows "scan_ok tbl state \<longrightarrow> sc_chunk state \<noteq> None \<longrightarrow> (\<forall>result. \<exists>n.
      Scan env tbl txn result column_ids state
        = Some (Scan_turns env tbl txn column_ids (Suc n) (result, state))
    \<and> (\<forall>k<n. chunk_size (fst (Scan_turns env tbl txn column_ids (Suc k) (result, state))) = 0
             \<and> sc_chunk (snd (Scan_turns env tbl txn column_ids (Suc k) (result, state))) \<noteq> None)
    \<and> (0 < chunk_size (fst (Scan_turns env tbl txn column_ids (Suc n) (result, state)))
         \<or> sc_chunk (snd (Scan_turns env tbl txn column_ids (Suc n) (result, state))) = None)
    \<and> chunk_size (fst (Scan_turns env tbl txn column_ids (Suc n) (result, state)))
         \<le> STANDARD_VECTOR_SIZE env
    \<and> scan_ok tbl (snd (Scan_turns env tbl txn column_ids (Suc n) (result, state)))
    \<and> sc_last_chunk (snd (Scan_turns env tbl txn column_ids (Suc n) (result, state)))
         = sc_last_chunk state
    \<and> ((sc_chunk (snd (Scan_turns env tbl txn column_ids (Suc n) (result, state))) = None)
         = (sc_chunk (snd (Scan_turns env tbl txn column_ids n (result, state)))
              = Some (sc_last_chunk state)
            \<and> fst (VersionChunk_Scan env tbl (sc_last_chunk state)
                     (snd (Scan_turns env tbl txn column_ids n (result, state))) txn column_ids
                     (sc_offset (snd (Scan_turns env tbl txn column_ids n (result, state))))))))"
proof -
  let ?VS = "STANDARD_VECTOR_SIZE env"
  let ?T = "\<lambda>k result state. Scan_turns env tbl txn column_ids k (result, state)"
  let ?Q = "\<lambda>result state n.
      Scan env tbl txn result column_ids state = Some (?T (Suc n) result state)
    \<and> (\<forall>k<n. chunk_size (fst (?T (Suc k) result state)) = 0
             \<and> sc_chunk (snd (?T (Suc k) result state)) \<noteq> None)
    \<and> (0 < chunk_size (fst (?T (Suc n) result state))
         \<or> sc_chunk (snd (?T (Suc n) result state)) = None)
    \<and> chunk_size (fst (?T (Suc n) result state)) \<le> ?VS
    \<and> scan_ok tbl (snd (?T (Suc n) result state))
    \<and> sc_last_chunk (snd (?T (Suc n) result state)) = sc_last_chunk state
    \<and> ((sc_chunk (snd (?T (Suc n) result state)) = None)
         = (sc_chunk (snd (?T n result state)) = Some (sc_last_chunk state)
            \<and> fst (VersionChunk_Scan env tbl (sc_last_chunk state)
                     (snd (?T n result state)) txn column_ids
                     (sc_offset (snd (?T n result state))))))"
  have "wf (measures
          [\<lambda>s. case sc_chunk s of None \<Rightarrow> 0 | Some c \<Rightarrow> Suc (sc_last_chunk s - c),
           \<lambda>s. case sc_chunk s of None \<Rightarrow> 0
                | Some c \<Rightarrow> end_row_of tbl s c - sc_offset s])"
    by simp
  then have "scan_ok tbl state \<longrightarrow> sc_chunk state \<noteq> None \<longrightarrow> (\<forall>result. \<exists>n. ?Q result state n)"
  proof (induct state rule: wf_induct_rule)
    case (less state)
    have IH: "\<exists>n. ?Q result y n"
      if "(y, state) \<in> measures
          [\<lambda>s. case sc_chunk s of None \<Rightarrow> 0 | Some c \<Rightarrow> Suc (sc_last_chunk s - c),
           \<lambda>s. case sc_chunk s of None \<Rightarrow> 0
                | Some c \<Rightarrow> end_row_of tbl s c - sc_offset s]"
        and "scan_ok tbl y" and "sc_chunk y \<noteq> None" for y result
      using less.hyps[OF that(1), rule_format, OF that(2,3)] .
    show ?case
    proof (intro impI allI)
      fix result
      assume prems: "scan_ok tbl state" and cursor: "sc_chunk state \<noteq> None"
      then obtain c where Some: "sc_chunk state = Some c" by blast
      define is_last where
        "is_last = fst (VersionChunk_Scan env tbl c state txn column_ids (sc_offset state))"
      define r where
        "r = snd (VersionChunk_Scan env tbl c state txn column_ids (sc_offset state))"
      have rs: "chunk_size r \<le> ?VS" unfolding r_def by (rule VersionChunk_Scan_size)
      have wf: "sc_last_chunk state < length (storage_tree tbl)" "c \<le> sc_last_chunk state"
        using prems Some by (simp_all add: scan_ok_def)
      have turn: "Scan_turn env tbl txn column_ids c state =
         (if is_last \<and> c = sc_last_chunk state then (True, r, state\<lparr>sc_chunk := None\<rparr>)
           else if is_last then (False, r, state\<lparr>sc_offset := 0, sc_chunk := next_chunk tbl c\<rparr>)
           else (False, r, state\<lparr>sc_offset := sc_offset state + 1\<rparr>))"
        by (auto simp: Scan_turn_def Some is_last_def r_def split: prod.splits)
      have T0: "?T 0 result state = (result, state)" by simp
      text \<open>The call returns after its first turn.\<close>
      have now: "?Q result state 0"
        if t: "Scan_turn env tbl txn column_ids c state = (b, r, s1)"
          and ret: "b \<or> 0 < chunk_size r"
          and b: "b = (sc_chunk s1 = None)"
          and n: "(sc_chunk s1 = None) = (is_last \<and> c = sc_last_chunk state)"
          and ok1: "scan_ok tbl s1" and l1: "sc_last_chunk s1 = sc_last_chunk state"
        for b s1
      proof -
        have T1: "?T (Suc 0) result state = (r, s1)"
          using Some t by simp
        have scan: "Scan env tbl txn result column_ids state = Some (r, s1)"
          using Some t ret by (subst Scan.simps) auto
        have z: "\<forall>k<0. chunk_size (fst (?T (Suc k) result state)) = 0
             \<and> sc_chunk (snd (?T (Suc k) result state)) \<noteq> None"
          by (simp del: Scan_turns.simps)
        have why: "0 < chunk_size r \<or> sc_chunk s1 = None"
          using ret b by auto
        have last: "(sc_chunk s1 = None)
           = (sc_chunk state = Some (sc_last_chunk state)
              \<and> fst (VersionChunk_Scan env tbl (sc_last_chunk state) state txn column_ids
                      (sc_offset state)))"
          using n Some by (auto simp: is_last_def)
        show ?thesis
          unfolding T1 T0 fst_conv snd_conv
          by (intro conjI) (rule scan z why rs ok1 l1 last)+
      qed
      text \<open>The call goes on after a turn that gave no row.\<close>
      have later: "\<exists>n. ?Q result state n"
        if t: "Scan_turn env tbl txn column_ids c state = (False, r, s1)"
          and empty: "chunk_size r = 0"
          and c1: "sc_chunk s1 \<noteq> None"
          and ok1: "scan_ok tbl s1" and l1: "sc_last_chunk s1 = sc_last_chunk state"
          and lt: "(s1, state) \<in> measures
            [\<lambda>s. case sc_chunk s of None \<Rightarrow> 0 | Some c \<Rightarrow> Suc (sc_last_chunk s - c),
             \<lambda>s. case sc_chunk s of None \<Rightarrow> 0
                  | Some c \<Rightarrow> end_row_of tbl s c - sc_offset s]"
        for s1
      proof -
        have TS: "?T (Suc k) result state = ?T k r s1" for k
          using Some t by simp
        have step: "Scan env tbl txn result column_ids state = Scan env tbl txn r column_ids s1"
          using Some t empty by (subst Scan.simps) simp
        from IH[OF lt ok1 c1, where result = r] obtain m where m: "?Q r s1 m" ..
        note m1 = m[THEN conjunct1] and m2 = m[THEN conjunct2, THEN conjunct1]
          and m3 = m[THEN conjunct2, THEN conjunct2]
        have q1: "Scan env tbl txn result column_ids state = Some (?T (Suc (Suc m)) result state)"
          using m1 step by (simp only: TS)
        have q2: "\<forall>k<Suc m. chunk_size (fst (?T (Suc k) result state)) = 0
             \<and> sc_chunk (snd (?T (Suc k) result state)) \<noteq> None"
        proof (intro allI impI)
          fix k assume k: "k < Suc m"
          show "chunk_size (fst (?T (Suc k) result state)) = 0
             \<and> sc_chunk (snd (?T (Suc k) result state)) \<noteq> None"
          proof (cases k)
            case 0
            then show ?thesis using empty c1 by (simp only: TS) simp
          next
            case (Suc j)
            then have "j < m" using k by simp
            then show ?thesis using m2 unfolding Suc TS by simp
          qed
        qed
        have q3: "(0 < chunk_size (fst (?T (Suc (Suc m)) result state))
             \<or> sc_chunk (snd (?T (Suc (Suc m)) result state)) = None)
          \<and> chunk_size (fst (?T (Suc (Suc m)) result state)) \<le> ?VS
          \<and> scan_ok tbl (snd (?T (Suc (Suc m)) result state))
          \<and> sc_last_chunk (snd (?T (Suc (Suc m)) result state)) = sc_last_chunk state
          \<and> ((sc_chunk (snd (?T (Suc (Suc m)) result state)) = None)
               = (sc_chunk (snd (?T (Suc m) result state)) = Some (sc_last_chunk state)
                  \<and> fst (VersionChunk_Scan env tbl (sc_last_chunk state)
                           (snd (?T (Suc m) result state)) txn column_ids
                           (sc_offset (snd (?T (Suc m) result state))))))"
          using m3 unfolding TS l1 .
        have "?Q result state (Suc m)"
          by (intro conjI) (rule q1 q2 q3[THEN conjunct1] q3[THEN conjunct2, THEN conjunct1]
            q3[THEN conjunct2, THEN conjunct2, THEN conjunct1]
            q3[THEN conjunct2, THEN conjunct2, THEN conjunct2, THEN conjunct1]
            q3[THEN conjunct2, THEN conjunct2, THEN conjunct2, THEN conjunct2])+
        then show ?thesis by (rule exI)
      qed
      consider (finish) "is_last" "c = sc_last_chunk state"
        | (next_one) "is_last" "c \<noteq> sc_last_chunk state"
        | (same) "\<not> is_last"
        by blast
      then show "\<exists>n. ?Q result state n"
      proof cases
        case finish
        have "?Q result state 0"
          by (rule now[where b = True and ?s1.0 = "state\<lparr>sc_chunk := None\<rparr>"])
             (use finish turn wf in \<open>simp_all add: scan_ok_def\<close>)
        then show ?thesis by (rule exI)
      next
        case next_one
        define s1 where "s1 = state\<lparr>sc_offset := 0, sc_chunk := next_chunk tbl c\<rparr>"
        have nx: "next_chunk tbl c = Some (Suc c)"
          using wf next_one by (simp add: next_chunk_def)
        have t: "Scan_turn env tbl txn column_ids c state = (False, r, s1)"
          using turn next_one by (simp add: s1_def)
        have ok1: "scan_ok tbl s1"
          using wf next_one by (simp add: scan_ok_def s1_def nx)
        have c1: "sc_chunk s1 \<noteq> None" and l1: "sc_last_chunk s1 = sc_last_chunk state"
          by (simp_all add: s1_def nx)
        have lt: "(s1, state) \<in> measures
            [\<lambda>s. case sc_chunk s of None \<Rightarrow> 0 | Some c \<Rightarrow> Suc (sc_last_chunk s - c),
             \<lambda>s. case sc_chunk s of None \<Rightarrow> 0
                  | Some c \<Rightarrow> end_row_of tbl s c - sc_offset s]"
        proof -
          have "sc_last_chunk state - Suc c < sc_last_chunk state - c"
            using wf next_one by simp
          then show ?thesis using Some by (simp add: s1_def nx)
        qed
        show ?thesis
        proof (cases "0 < chunk_size r")
          case True
          have "?Q result state 0"
            by (rule now[where b = False and ?s1.0 = s1])
               (use t True c1 ok1 l1 next_one in \<open>simp_all\<close>)
          then show ?thesis by (rule exI)
        next
          case False
          then show ?thesis using later[OF t _ c1 ok1 l1 lt] by simp
        qed
      next
        case same
        define s1 where "s1 = state\<lparr>sc_offset := sc_offset state + 1\<rparr>"
        have t: "Scan_turn env tbl txn column_ids c state = (False, r, s1)"
          using turn same by (simp add: s1_def)
        have ok1: "scan_ok tbl s1"
          using wf Some by (simp add: scan_ok_def s1_def)
        have c1: "sc_chunk s1 \<noteq> None" and l1: "sc_last_chunk s1 = sc_last_chunk state"
          using Some by (simp_all add: s1_def)
        have more: "sc_offset state * ?VS + ?VS < end_row_of tbl state c"
          using same by (simp add: is_last_def VersionChunk_Scan_last)
        have "sc_offset state + 1 \<le> (sc_offset state + 1) * ?VS"
          using vs by (metis One_nat_def Suc_leI mult.right_neutral mult_le_mono2)
        then have off: "sc_offset state + 1 < end_row_of tbl state c"
          using more by (simp add: algebra_simps)
        have er: "end_row_of tbl s1 c = end_row_of tbl state c"
          by (simp add: end_row_of_def s1_def)
        have lt: "(s1, state) \<in> measures
            [\<lambda>s. case sc_chunk s of None \<Rightarrow> 0 | Some c \<Rightarrow> Suc (sc_last_chunk s - c),
             \<lambda>s. case sc_chunk s of None \<Rightarrow> 0
                  | Some c \<Rightarrow> end_row_of tbl s c - sc_offset s]"
          using Some off er by (simp add: s1_def end_row_of_def)
        show ?thesis
        proof (cases "0 < chunk_size r")
          case True
          have "?Q result state 0"
            by (rule now[where b = False and ?s1.0 = s1])
               (use t True c1 ok1 l1 same in \<open>simp_all\<close>)
          then show ?thesis by (rule exI)
        next
          case False
          then show ?thesis using later[OF t _ c1 ok1 l1 lt] by simp
        qed
      qed
    qed
  qed
  then show ?thesis .
qed

text \<open>Claim C9.  \<^verbatim>\<open>InitializeScan\<close> on a table with a chunk gives a state that stands at
  the first chunk, at offset 0, and has captured the last chunk and its count.

  A call of \<^verbatim>\<open>Scan\<close> from a state that stands at a chunk not after the captured last
  chunk returns, and it returns what the turns of its loop have made of the result and
  the state at the first turn that leaves a result that is not empty or a state that
  stands at no chunk: every turn before that one left an empty result and a state that
  stands at a chunk.  The result holds at most \<^verbatim>\<open>STANDARD_VECTOR_SIZE\<close> rows.  The state
  the call returns stands at no chunk exactly when the last turn scanned the last
  block of the captured last chunk.

  A call from a state that stands at no chunk returns at once, with the result and the
  state it was given.

  A turn of the loop scans one block of at most \<^verbatim>\<open>STANDARD_VECTOR_SIZE\<close> rows and leaves
  it in the result; it ends the scan (it sets the chunk of the state to null, and
  leaves the loop at once) exactly when the block was the last one of its chunk and
  the chunk is the captured last chunk.\<close>

theorem Scan_one_vector:
  "(storage_tree tbl \<noteq> [] \<longrightarrow>
      scan_ok tbl (InitializeScan tbl) \<and> sc_chunk (InitializeScan tbl) = Some 0
      \<and> sc_last_chunk (InitializeScan tbl) = length (storage_tree tbl) - 1
      \<and> sc_last_chunk_count (InitializeScan tbl) = vc_count (last (storage_tree tbl))
      \<and> sc_offset (InitializeScan tbl) = 0)
   \<and> (0 < STANDARD_VECTOR_SIZE env \<and> scan_ok tbl state \<and> sc_chunk state \<noteq> None \<longrightarrow>
        (\<exists>n.
            Scan env tbl txn result column_ids state
              = Some (Scan_turns env tbl txn column_ids (Suc n) (result, state))
          \<and> (\<forall>k<n.
                chunk_size (fst (Scan_turns env tbl txn column_ids (Suc k) (result, state))) = 0
              \<and> sc_chunk (snd (Scan_turns env tbl txn column_ids (Suc k) (result, state))) \<noteq> None)
          \<and> (0 < chunk_size (fst (Scan_turns env tbl txn column_ids (Suc n) (result, state)))
               \<or> sc_chunk (snd (Scan_turns env tbl txn column_ids (Suc n) (result, state))) = None)
          \<and> chunk_size (fst (Scan_turns env tbl txn column_ids (Suc n) (result, state)))
               \<le> STANDARD_VECTOR_SIZE env
          \<and> scan_ok tbl (snd (Scan_turns env tbl txn column_ids (Suc n) (result, state)))
          \<and> sc_last_chunk (snd (Scan_turns env tbl txn column_ids (Suc n) (result, state)))
               = sc_last_chunk state
          \<and> ((sc_chunk (snd (Scan_turns env tbl txn column_ids (Suc n) (result, state))) = None)
               = (sc_chunk (snd (Scan_turns env tbl txn column_ids n (result, state)))
                    = Some (sc_last_chunk state)
                  \<and> fst (VersionChunk_Scan env tbl (sc_last_chunk state)
                           (snd (Scan_turns env tbl txn column_ids n (result, state))) txn
                           column_ids
                           (sc_offset (snd (Scan_turns env tbl txn column_ids n (result, state)))))))))
   \<and> (sc_chunk state = None \<longrightarrow>
        Scan env tbl txn result column_ids state = Some (result, state))
   \<and> (scan_ok tbl state \<and> sc_chunk state = Some c \<longrightarrow>
        fst (snd (Scan_turn env tbl txn column_ids c state))
          = snd (VersionChunk_Scan env tbl c state txn column_ids (sc_offset state))
        \<and> chunk_size (fst (snd (Scan_turn env tbl txn column_ids c state)))
          \<le> STANDARD_VECTOR_SIZE env
        \<and> (sc_chunk (snd (snd (Scan_turn env tbl txn column_ids c state))) = None)
            = (fst (VersionChunk_Scan env tbl c state txn column_ids (sc_offset state))
               \<and> c = sc_last_chunk state)
        \<and> fst (Scan_turn env tbl txn column_ids c state)
            = (sc_chunk (snd (snd (Scan_turn env tbl txn column_ids c state))) = None))"
proof (intro conjI impI)
  assume "storage_tree tbl \<noteq> []"
  then show "scan_ok tbl (InitializeScan tbl)" "sc_chunk (InitializeScan tbl) = Some 0"
    "sc_last_chunk (InitializeScan tbl) = length (storage_tree tbl) - 1"
    "sc_last_chunk_count (InitializeScan tbl) = vc_count (last (storage_tree tbl))"
    "sc_offset (InitializeScan tbl) = 0"
    by (simp_all add: InitializeScan_def scan_ok_def)
next
  assume a: "0 < STANDARD_VECTOR_SIZE env \<and> scan_ok tbl state \<and> sc_chunk state \<noteq> None"
  then have vs: "0 < STANDARD_VECTOR_SIZE env" and ok: "scan_ok tbl state"
    and cur: "sc_chunk state \<noteq> None"
    by simp_all
  show "\<exists>n.
            Scan env tbl txn result column_ids state
              = Some (Scan_turns env tbl txn column_ids (Suc n) (result, state))
          \<and> (\<forall>k<n.
                chunk_size (fst (Scan_turns env tbl txn column_ids (Suc k) (result, state))) = 0
              \<and> sc_chunk (snd (Scan_turns env tbl txn column_ids (Suc k) (result, state))) \<noteq> None)
          \<and> (0 < chunk_size (fst (Scan_turns env tbl txn column_ids (Suc n) (result, state)))
               \<or> sc_chunk (snd (Scan_turns env tbl txn column_ids (Suc n) (result, state))) = None)
          \<and> chunk_size (fst (Scan_turns env tbl txn column_ids (Suc n) (result, state)))
               \<le> STANDARD_VECTOR_SIZE env
          \<and> scan_ok tbl (snd (Scan_turns env tbl txn column_ids (Suc n) (result, state)))
          \<and> sc_last_chunk (snd (Scan_turns env tbl txn column_ids (Suc n) (result, state)))
               = sc_last_chunk state
          \<and> ((sc_chunk (snd (Scan_turns env tbl txn column_ids (Suc n) (result, state))) = None)
               = (sc_chunk (snd (Scan_turns env tbl txn column_ids n (result, state)))
                    = Some (sc_last_chunk state)
                  \<and> fst (VersionChunk_Scan env tbl (sc_last_chunk state)
                           (snd (Scan_turns env tbl txn column_ids n (result, state))) txn
                           column_ids
                           (sc_offset (snd (Scan_turns env tbl txn column_ids n (result, state)))))))"
    using Scan_first_return[OF vs, where tbl = tbl and state = state and txn = txn
        and column_ids = column_ids, rule_format, OF ok cur, where result = result] .
next
  assume "sc_chunk state = None"
  then show "Scan env tbl txn result column_ids state = Some (result, state)"
    by (subst Scan.simps) simp
next
  assume a: "scan_ok tbl state \<and> sc_chunk state = Some c"
  then have wf: "sc_last_chunk state < length (storage_tree tbl)" "c \<le> sc_last_chunk state"
    by (auto simp: scan_ok_def)
  have nx: "c \<noteq> sc_last_chunk state \<Longrightarrow> next_chunk tbl c = Some (Suc c)"
    using wf by (simp add: next_chunk_def)
  show "fst (snd (Scan_turn env tbl txn column_ids c state))
          = snd (VersionChunk_Scan env tbl c state txn column_ids (sc_offset state))"
    by (auto simp: Scan_turn_def split: prod.splits)
  show "chunk_size (fst (snd (Scan_turn env tbl txn column_ids c state)))
          \<le> STANDARD_VECTOR_SIZE env"
    using VersionChunk_Scan_size[of env tbl c state txn column_ids "sc_offset state"]
    by (auto simp: Scan_turn_def split: prod.splits)
  show "(sc_chunk (snd (snd (Scan_turn env tbl txn column_ids c state))) = None)
            = (fst (VersionChunk_Scan env tbl c state txn column_ids (sc_offset state))
               \<and> c = sc_last_chunk state)"
    using a nx by (auto simp: Scan_turn_def split: prod.splits)
  show "fst (Scan_turn env tbl txn column_ids c state)
            = (sc_chunk (snd (snd (Scan_turn env tbl txn column_ids c state))) = None)"
    using a nx by (auto simp: Scan_turn_def split: prod.splits)
qed

theorem Scan_one_vector_witness:
  "storage_tree sample_appended \<noteq> [] \<and> 0 < STANDARD_VECTOR_SIZE sample_env
   \<and> scan_ok sample_appended (InitializeScan sample_appended)
   \<and> sc_chunk (InitializeScan sample_appended) \<noteq> None
   \<and> (\<exists>result1 state1 result2 state2.
         Scan sample_env sample_appended (sample_txn 1) (InitializeEmpty [INTEGER]) [0]
             (InitializeScan sample_appended) = Some (result1, state1)
         \<and> vector_values (chunk_data result1 0) = [5, 6] \<and> sc_chunk state1 = Some 1
         \<and> scan_ok sample_appended state1
         \<and> Scan sample_env sample_appended (sample_txn 1) (InitializeEmpty [INTEGER]) [0] state1
             = Some (result2, state2)
         \<and> vector_values (chunk_data result2 0) = [7] \<and> sc_chunk state2 = None
         \<and> scan_ok sample_appended state2
         \<and> Scan sample_env sample_appended (sample_txn 1) (InitializeEmpty [INTEGER]) [0] state2
             = Some (InitializeEmpty [INTEGER], state2)
         \<and> chunk_size (InitializeEmpty [INTEGER]) = 0)"
proof -
  let ?T = "sample_appended"
  let ?E = "InitializeEmpty [INTEGER]"
  let ?scan = "Scan sample_env ?T (sample_txn 1) ?E [0]"
  have ne: "storage_tree ?T \<noteq> []" by code_simp
  have vs: "0 < STANDARD_VECTOR_SIZE sample_env" by (simp add: sample_env_def)
  note inst = Scan_one_vector [where tbl = ?T and env = sample_env and txn = "sample_txn 1"
      and result = ?E and column_ids = "[0]"]
  have ok0: "scan_ok ?T (InitializeScan ?T)" and c0: "sc_chunk (InitializeScan ?T) \<noteq> None"
    using inst[THEN conjunct1] ne by simp_all
  obtain n1 where s1: "?scan (InitializeScan ?T)
        = Some (Scan_turns sample_env ?T (sample_txn 1) [0] (Suc n1) (?E, InitializeScan ?T))"
    and ok1: "scan_ok ?T (snd (Scan_turns sample_env ?T (sample_txn 1) [0] (Suc n1)
                                 (?E, InitializeScan ?T)))"
    using inst[where state = "InitializeScan ?T", THEN conjunct2, THEN conjunct1] vs ok0 c0
    by blast
  define result1 where
    "result1 = fst (Scan_turns sample_env ?T (sample_txn 1) [0] (Suc n1) (?E, InitializeScan ?T))"
  define state1 where
    "state1 = snd (Scan_turns sample_env ?T (sample_txn 1) [0] (Suc n1) (?E, InitializeScan ?T))"
  have s1': "?scan (InitializeScan ?T) = Some (result1, state1)"
    using s1 by (simp add: result1_def state1_def)
  have ok1': "scan_ok ?T state1" using ok1 by (simp add: state1_def)
  have ev1: "vector_values (chunk_data (fst (the (?scan (InitializeScan ?T)))) 0) = [5, 6]"
    "sc_chunk (snd (the (?scan (InitializeScan ?T)))) = Some 1"
    by code_simp+
  have r1: "vector_values (chunk_data result1 0) = [5, 6]" "sc_chunk state1 = Some 1"
    using ev1 s1' by simp_all
  have c1: "sc_chunk state1 \<noteq> None" using r1(2) by simp
  obtain n2 where s2: "?scan state1
        = Some (Scan_turns sample_env ?T (sample_txn 1) [0] (Suc n2) (?E, state1))"
    and ok2: "scan_ok ?T (snd (Scan_turns sample_env ?T (sample_txn 1) [0] (Suc n2) (?E, state1)))"
    using inst[where state = state1, THEN conjunct2, THEN conjunct1] vs ok1' c1
    by blast
  define result2 where
    "result2 = fst (Scan_turns sample_env ?T (sample_txn 1) [0] (Suc n2) (?E, state1))"
  define state2 where
    "state2 = snd (Scan_turns sample_env ?T (sample_txn 1) [0] (Suc n2) (?E, state1))"
  have s2': "?scan state1 = Some (result2, state2)"
    using s2 by (simp add: result2_def state2_def)
  have ok2': "scan_ok ?T state2" using ok2 by (simp add: state2_def)
  have ev2: "vector_values (chunk_data (fst (the (?scan (snd (the (?scan (InitializeScan ?T))))))) 0) = [7]"
    "sc_chunk (snd (the (?scan (snd (the (?scan (InitializeScan ?T))))))) = None"
    by code_simp+
  have r2: "vector_values (chunk_data result2 0) = [7]" "sc_chunk state2 = None"
    using ev2 s1' s2' by simp_all
  have s3: "?scan state2 = Some (?E, state2)"
    using inst[where state = state2, THEN conjunct2, THEN conjunct2, THEN conjunct1] r2(2)
    by blast
  have e: "chunk_size ?E = 0"
    by (simp add: chunk_size_def InitializeEmpty_def empty_vector_def)
  show ?thesis
    using ne vs ok0 c0 s1' r1 ok1' s2' r2 ok2' s3 e by blast
qed

subsection \<open>Empty inputs\<close>

text \<open>Claim C10.  Every write entry point does nothing on an empty input.  An append of
  a chunk of size 0 returns at once, the table and the transaction unchanged and no
  exception thrown, whatever the column count of the chunk.  A delete and an update
  with an empty vector of row identifiers (a vector of the row type; for the update
  the chunk of updates passes its self-check, which the function runs first) return the
  table and the transaction unchanged, with no exception.\<close>

theorem empty_input_no_op:
  "(chunk_size chunk = 0 \<longrightarrow> Append env ops table txn tbl chunk = Some (tbl, txn, None))
   \<and> (vec_type row_identifiers = ROW_TYPE env \<and> vec_count row_identifiers = 0 \<longrightarrow>
        Delete env table txn tbl row_identifiers = (tbl, txn, None))
   \<and> (vec_type row_identifiers = ROW_TYPE env \<and> chunk_Verify env updates
        \<and> vec_count row_identifiers = 0 \<longrightarrow>
        Update env ops table txn tbl row_identifiers column_ids updates = (tbl, txn, None))"
  by (simp add: Append_def Delete_def Update_def)

theorem empty_input_witness:
  "chunk_size (column_chunk 3 (list_vector INTEGER [] {})) = 0
   \<and> column_count (column_chunk 3 (list_vector INTEGER [] {}))
       \<noteq> length (table_columns (sample_table [FOREIGN_KEY]))
   \<and> Append sample_env sample_ops (sample_table [FOREIGN_KEY]) (sample_txn 1)
        (DataTable_new [INTEGER]) (column_chunk 3 (list_vector INTEGER [] {}))
      = Some (DataTable_new [INTEGER], sample_txn 1, None)
   \<and> vec_type (list_vector BIGINT [] {}) = ROW_TYPE sample_env
   \<and> vec_count (list_vector BIGINT [] {}) = 0
   \<and> chunk_Verify sample_env (column_chunk 1 (list_vector INTEGER [] {}))
   \<and> Delete sample_env (sample_table []) (sample_txn 1)
        (DataTable_new [INTEGER] :: SampleIndex DataTable) (list_vector BIGINT [] {})
      = (DataTable_new [INTEGER], sample_txn 1, None)
   \<and> Update sample_env sample_ops (sample_table [OTHER_CONSTRAINT]) (sample_txn 1)
        (DataTable_new [INTEGER]) (list_vector BIGINT [] {}) [0]
        (column_chunk 1 (list_vector INTEGER [] {}))
      = (DataTable_new [INTEGER], sample_txn 1, None)"
  using empty_input_no_op [where chunk = "column_chunk 3 (list_vector INTEGER [] {})"
          and env = sample_env and ops = sample_ops and table = "sample_table [FOREIGN_KEY]"
          and txn = "sample_txn 1" and tbl = "DataTable_new [INTEGER]"
          and row_identifiers = "list_vector BIGINT [] {}"]
        empty_input_no_op [where env = sample_env and ops = sample_ops
          and table = "sample_table [OTHER_CONSTRAINT]"
          and txn = "sample_txn 1" and tbl = "DataTable_new [INTEGER]"
          and row_identifiers = "list_vector BIGINT [] {}"
          and updates = "column_chunk 1 (list_vector INTEGER [] {})" and column_ids = "[0]"]
        empty_input_no_op [where env = sample_env and table = "sample_table []"
          and txn = "sample_txn 1" and tbl = "DataTable_new [INTEGER] :: SampleIndex DataTable"
          and row_identifiers = "list_vector BIGINT [] {}"]
  by (simp add: chunk_size_def column_chunk_def list_vector_def sample_table_def sample_env_def)

end
